theory Spec2Isabelle
  imports Complex_Main
begin

section \<open>Numbers\<close>

text \<open>
  Every JavaScript number of the program is an IEEE 754 binary64 value.  The type
  \<open>double\<close> below is the set of reals that binary64 represents exactly (53 significant
  bits, exponents from -1022, subnormals down to \<open>2 powi (- 1074)\<close>), and \<open>+\<close>, \<open>-\<close>, \<open>*\<close>
  and \<open>/\<close> on it compute the exact real result and round it to the nearest double, ties
  to the even mantissa, as the hardware does.  Comparison is the order of the reals.
  \<^item> \<open>rne\<close> rounds a real to the nearest integer, a tie to the even one;
  \<^item> \<open>expo y\<close> is the binary exponent of \<open>y > 0\<close>, kept between -1022 and 1023, found by
    halving or doubling \<open>y\<close>;
  \<^item> \<open>ulp y\<close> is the distance between neighbouring doubles at \<open>y\<close>;
  \<^item> \<open>fl x\<close> is \<open>x\<close> rounded to a double; \<open>D x\<close> is that double, the value of the
    literal \<open>x\<close> in the source; \<open>val d\<close> is the real a double stands for.

  NaN and the two infinities are not values of the type: a result whose magnitude
  reaches \<open>2 powi 1024\<close> is rounded on the grid of the last binade instead of becoming
  \<^verbatim>\<open>Infinity\<close>, and division by zero yields 0.  No statement below depends on either.
\<close>

subsection \<open>Rounding\<close>

definition rne :: "real \<Rightarrow> int" where
  "rne y = (let f = \<lfloor>y\<rfloor> in
     if y - of_int f < 1 / 2 then f
     else if 1 / 2 < y - of_int f then f + 1
     else if even f then f else f + 1)"

fun bexp :: "nat \<Rightarrow> real \<Rightarrow> int" where
  "bexp 0 y = 0"
| "bexp (Suc n) y = (if y < 2 then 0 else 1 + bexp n (y / 2))"

fun sexp :: "nat \<Rightarrow> real \<Rightarrow> int" where
  "sexp 0 y = 0"
| "sexp (Suc n) y = (if 1 \<le> y then 0 else sexp n (2 * y) - 1)"

definition expo :: "real \<Rightarrow> int" where
  "expo y = (if 1 \<le> y then bexp 1023 y else sexp 1022 y)"

definition ulp :: "real \<Rightarrow> real" where
  "ulp y = 2 powi (expo y - 52)"

definition flp :: "real \<Rightarrow> real" where
  "flp y = of_int (rne (y / ulp y)) * ulp y"

definition fl :: "real \<Rightarrow> real" where
  "fl x = (if x < 0 then - flp (- x) else flp x)"

lemma rne_of_int: "rne (of_int n) = n"
  by (simp add: rne_def)

lemma rne_cases: "rne y = \<lfloor>y\<rfloor> \<or> rne y = \<lfloor>y\<rfloor> + 1"
  by (simp add: rne_def Let_def)

lemma rne_lower: "y - of_int \<lfloor>y\<rfloor> < 1 / 2 \<Longrightarrow> rne y = \<lfloor>y\<rfloor>"
  by (simp add: rne_def)

lemma rne_upper: "1 / 2 < y - of_int \<lfloor>y\<rfloor> \<Longrightarrow> rne y = \<lfloor>y\<rfloor> + 1"
  by (simp add: rne_def)

lemma rne_err: "\<bar>of_int (rne y) - y\<bar> \<le> 1 / 2"
proof -
  have "of_int \<lfloor>y\<rfloor> \<le> y" "y < of_int \<lfloor>y\<rfloor> + 1" by linarith+
  then show ?thesis
    by (auto simp add: rne_def Let_def abs_le_iff)
qed

lemma rne_mono:
  assumes "x \<le> y" shows "rne x \<le> rne y"
proof (cases "\<lfloor>x\<rfloor> = \<lfloor>y\<rfloor>")
  case True
  then show ?thesis using assms by (auto simp add: rne_def Let_def)
next
  case False
  have "\<lfloor>x\<rfloor> \<le> \<lfloor>y\<rfloor>" using assms by (rule floor_mono)
  with False have "\<lfloor>x\<rfloor> + 1 \<le> \<lfloor>y\<rfloor>" by simp
  moreover have "rne x \<le> \<lfloor>x\<rfloor> + 1" using rne_cases [of x] by auto
  moreover have "\<lfloor>y\<rfloor> \<le> rne y" using rne_cases [of y] by auto
  ultimately show ?thesis by linarith
qed

lemma rne_ge: "of_int n \<le> y \<Longrightarrow> n \<le> rne y"
  using rne_mono [of "of_int n" y] by (simp add: rne_of_int)

lemma rne_le: "y \<le> of_int n \<Longrightarrow> rne y \<le> n"
  using rne_mono [of y "of_int n"] by (simp add: rne_of_int)

lemma rne_Ints: "y \<in> \<int> \<Longrightarrow> of_int (rne y) = y"
  by (auto simp add: Ints_def rne_of_int)

lemma two_powi_pos [simp]: "0 < (2::real) powi k"
  by (simp add: zero_less_power_int)

lemma two_powi_add1: "(2::real) powi (k + 1) = 2 * 2 powi k"
  by (simp add: power_int_add)

lemma two_powi_sub1: "(2::real) powi (k - 1) = 2 powi k / 2"
  by (simp add: power_int_diff)

lemma two_powi_mono: "k \<le> l \<Longrightarrow> (2::real) powi k \<le> 2 powi l"
  by (rule power_int_increasing) simp_all

lemma two_powi_less: "k < l \<Longrightarrow> (2::real) powi k < 2 powi l"
  by (rule power_int_strict_increasing) simp_all

lemma bexp_range: "0 \<le> bexp n y \<and> bexp n y \<le> int n"
  by (induction n arbitrary: y) auto

lemma bexp_lower: "1 \<le> y \<Longrightarrow> 2 powi (bexp n y) \<le> y"
proof (induction n arbitrary: y)
  case 0
  then show ?case by simp
next
  case (Suc n)
  show ?case
  proof (cases "y < 2")
    case True
    then show ?thesis using Suc.prems by simp
  next
    case False
    then have "1 \<le> y / 2" by simp
    then have "2 powi (bexp n (y / 2)) \<le> y / 2" by (rule Suc.IH)
    then have "2 powi (bexp n (y / 2) + 1) \<le> y" by (simp add: two_powi_add1)
    then show ?thesis using False by (simp add: add.commute)
  qed
qed

lemma bexp_upper: "y < 2 ^ (n + 1) \<Longrightarrow> y < 2 powi (bexp n y + 1)"
proof (induction n arbitrary: y)
  case 0
  then show ?case by simp
next
  case (Suc n)
  show ?case
  proof (cases "y < 2")
    case True
    then show ?thesis by simp
  next
    case False
    have "y / 2 < 2 ^ (n + 1)" using Suc.prems by simp
    then have "y / 2 < 2 powi (bexp n (y / 2) + 1)" by (rule Suc.IH)
    moreover have "(2::real) powi (bexp n (y / 2) + 1 + 1) = 2 * 2 powi (bexp n (y / 2) + 1)"
      by (rule two_powi_add1)
    ultimately have "y < 2 powi (bexp n (y / 2) + 1 + 1)" by simp
    then show ?thesis using False by (simp add: add.commute)
  qed
qed

lemma bexp_big: "2 ^ n \<le> y \<Longrightarrow> bexp n y = int n"
proof (induction n arbitrary: y)
  case 0
  then show ?case by simp
next
  case (Suc n)
  have "(2::real) \<le> 2 ^ Suc n" by simp
  with Suc.prems have "\<not> y < 2" by linarith
  moreover have "2 ^ n \<le> y / 2" using Suc.prems by simp
  then have "bexp n (y / 2) = int n" by (rule Suc.IH)
  ultimately show ?case by simp
qed

lemma sexp_range: "- int n \<le> sexp n y \<and> sexp n y \<le> 0"
proof (induction n arbitrary: y)
  case 0
  then show ?case by simp
next
  case (Suc n)
  have "- int n \<le> sexp n (2 * y) \<and> sexp n (2 * y) \<le> 0" by (rule Suc.IH)
  then show ?case by simp
qed

lemma sexp_upper: "y < 1 \<Longrightarrow> y < 2 powi (sexp n y + 1)"
proof (induction n arbitrary: y)
  case 0
  then show ?case by simp
next
  case (Suc n)
  show ?case
  proof (cases "1 \<le> 2 * y")
    case True
    then have "sexp n (2 * y) = 0" by (cases n) simp_all
    then show ?thesis using Suc.prems by simp
  next
    case False
    then have "2 * y < 2 powi (sexp n (2 * y) + 1)" by (intro Suc.IH) simp
    then have "y < 2 powi (sexp n (2 * y))" by (simp add: two_powi_add1)
    then show ?thesis using Suc.prems by simp
  qed
qed

lemma sexp_lower: "y < 1 \<Longrightarrow> 2 powi (- int n) \<le> y \<Longrightarrow> 2 powi (sexp n y) \<le> y"
proof (induction n arbitrary: y)
  case 0
  then show ?case by simp
next
  case (Suc n)
  have e: "sexp (Suc n) y = sexp n (2 * y) - 1" using Suc.prems by simp
  show ?case
  proof (cases "1 \<le> 2 * y")
    case True
    then have "sexp n (2 * y) = 0" by (cases n) simp_all
    then show ?thesis using True e by (simp add: power_int_minus)
  next
    case False
    have "- int (Suc n) = - int n - 1" by simp
    then have "(2::real) powi (- int (Suc n)) = 2 powi (- int n) / 2"
      by (simp only: two_powi_sub1)
    with Suc.prems have "2 powi (- int n) \<le> 2 * y" by simp
    with False have "2 powi (sexp n (2 * y)) \<le> 2 * y" by (intro Suc.IH) simp_all
    then show ?thesis by (simp add: e two_powi_sub1)
  qed
qed

lemma sexp_small: "y < 2 powi (- int n) \<Longrightarrow> sexp n y = - int n"
proof (induction n arbitrary: y)
  case 0
  then show ?case by simp
next
  case (Suc n)
  have "- int (Suc n) = - int n - 1" by simp
  then have h: "(2::real) powi (- int (Suc n)) = 2 powi (- int n) / 2"
    by (simp only: two_powi_sub1)
  have "(2::real) powi (- int n) \<le> 2 powi 0" by (rule two_powi_mono) simp
  then have "(2::real) powi (- int n) \<le> 1" by simp
  with Suc.prems h have "y < 1" "2 * y < 2 powi (- int n)" by simp_all
  then have "sexp n (2 * y) = - int n" by (intro Suc.IH)
  with \<open>y < 1\<close> show ?case by simp
qed

lemma expo_range: "- 1022 \<le> expo y \<and> expo y \<le> 1023"
  using bexp_range [of 1023 y] sexp_range [of 1022 y] by (simp add: expo_def)

lemma expo_lower: "2 powi (- 1022) \<le> y \<Longrightarrow> 2 powi (expo y) \<le> y"
  using bexp_lower [of y 1023] sexp_lower [of y 1022] by (simp add: expo_def)

lemma expo_upper: "y < 2 powi 1024 \<Longrightarrow> y < 2 powi (expo y + 1)"
  using bexp_upper [of y 1023] sexp_upper [of y 1022] by (simp add: expo_def)

lemma expo_small: "y < 2 powi (- 1022) \<Longrightarrow> expo y = - 1022"
proof -
  assume a: "y < 2 powi (- 1022)"
  have "(2::real) powi (- 1022) \<le> 2 powi 0" by (rule two_powi_mono) simp
  with a have "y < 1" by simp
  then show ?thesis using sexp_small [of y 1022] a by (simp add: expo_def)
qed

lemma expo_big: "2 powi 1023 \<le> y \<Longrightarrow> expo y = 1023"
proof -
  assume a: "2 powi 1023 \<le> y"
  have "(2::real) powi 0 \<le> 2 powi 1023" by (rule two_powi_mono) simp
  with a have "1 \<le> y" by simp
  then show ?thesis using bexp_big [of 1023 y] a by (simp add: expo_def)
qed

lemma expo_lower': "- 1022 < expo y \<Longrightarrow> 2 powi (expo y) \<le> y"
  using expo_small [of y] expo_lower [of y] by (cases "y < 2 powi (- 1022)") simp_all

lemma expo_upper': "expo y < 1023 \<Longrightarrow> y < 2 powi (expo y + 1)"
proof -
  assume a: "expo y < 1023"
  have "(2::real) powi 1023 \<le> 2 powi 1024" by (rule two_powi_mono) simp
  then show ?thesis using expo_big [of y] expo_upper [of y] a
    by (cases "y < 2 powi 1024") auto
qed

lemma expo_mono: "x \<le> y \<Longrightarrow> expo x \<le> expo y"
proof (rule ccontr)
  assume le: "x \<le> y" and "\<not> expo x \<le> expo y"
  then have lt: "expo y < expo x" by simp
  have "- 1022 < expo x" using lt expo_range [of y] by simp
  then have a: "2 powi (expo x) \<le> x" by (rule expo_lower')
  have "expo y < 1023" using lt expo_range [of x] by simp
  then have b: "y < 2 powi (expo y + 1)" by (rule expo_upper')
  have "(2::real) powi (expo y + 1) \<le> 2 powi (expo x)"
    by (rule two_powi_mono) (use lt in simp)
  with a b le show False by linarith
qed

lemma expo_eq:
  assumes "2 powi k \<le> y" and "y < 2 powi (k + 1)" and "- 1022 \<le> k" and "k \<le> 1023"
  shows "expo y = k"
proof (rule antisym)
  show "expo y \<le> k"
  proof (rule ccontr)
    assume "\<not> expo y \<le> k"
    then have lt: "k + 1 \<le> expo y" by simp
    then have "- 1022 < expo y" using assms(3) by simp
    then have "2 powi (expo y) \<le> y" by (rule expo_lower')
    moreover have "(2::real) powi (k + 1) \<le> 2 powi (expo y)"
      using lt by (rule two_powi_mono)
    ultimately show False using assms(2) by linarith
  qed
  show "k \<le> expo y"
  proof (rule ccontr)
    assume "\<not> k \<le> expo y"
    then have lt: "expo y + 1 \<le> k" by simp
    then have "expo y < 1023" using assms(4) by simp
    then have "y < 2 powi (expo y + 1)" by (rule expo_upper')
    moreover have "(2::real) powi (expo y + 1) \<le> 2 powi k"
      using lt by (rule two_powi_mono)
    ultimately show False using assms(1) by linarith
  qed
qed

lemma two_powi_div: "(2::real) powi a / 2 powi b = 2 powi (a - b)"
  by (simp add: power_int_diff)

lemma two_powi_Ints: "0 \<le> k \<Longrightarrow> (2::real) powi k \<in> \<int>"
  by (simp add: power_int_nonneg_exp)

lemma two_powi_mult: "(2::real) powi a * 2 powi b = 2 powi (a + b)"
  by (simp add: power_int_add)

lemma ulp_pos [simp]: "0 < ulp y"
  by (simp add: ulp_def)

lemma ulp_nonneg [simp]: "0 \<le> ulp y"
  by (rule less_imp_le) (rule ulp_pos)

lemma ulp_neq0 [simp]: "ulp y \<noteq> 0"
  by (simp add: ulp_def)

lemma ulp_range: "2 powi (- 1074) \<le> ulp y"
  unfolding ulp_def using expo_range [of y] by (intro two_powi_mono) simp

lemma flp_nonneg: "0 \<le> y \<Longrightarrow> 0 \<le> flp y"
proof -
  assume "0 \<le> y"
  then have "of_int 0 \<le> y / ulp y" by simp
  then have "0 \<le> rne (y / ulp y)" by (rule rne_ge)
  then show ?thesis by (simp add: flp_def)
qed

lemma flp_exact: "y / ulp y \<in> \<int> \<Longrightarrow> flp y = y"
  by (simp add: flp_def rne_Ints)

lemma flp_err: "\<bar>flp y - y\<bar> \<le> ulp y / 2"
proof -
  have "flp y - y = (of_int (rne (y / ulp y)) - y / ulp y) * ulp y"
    by (simp add: flp_def algebra_simps)
  then have "\<bar>flp y - y\<bar> = \<bar>of_int (rne (y / ulp y)) - y / ulp y\<bar> * ulp y"
    by (simp add: abs_mult)
  also have "\<dots> \<le> (1 / 2) * ulp y"
    by (intro mult_right_mono rne_err) simp
  finally show ?thesis by simp
qed

lemma flp_upper:
  assumes "0 \<le> y" and "expo y < 1023"
  shows "flp y \<le> 2 powi (expo y + 1)"
proof -
  have "y < 2 powi (expo y + 1)" using assms(2) by (rule expo_upper')
  then have "y / ulp y < 2 powi (expo y + 1) / ulp y"
    by (intro divide_strict_right_mono) simp_all
  also have "2 powi (expo y + 1) / ulp y = 2 powi 53"
    by (simp add: ulp_def two_powi_div)
  finally have "y / ulp y \<le> of_int (2 ^ 53)" by simp
  then have "rne (y / ulp y) \<le> 2 ^ 53" by (rule rne_le)
  then have "(of_int (rne (y / ulp y)) :: real) \<le> of_int (2 ^ 53)" by (simp only: of_int_le_iff)
  then have "flp y \<le> 2 powi 53 * ulp y"
    by (simp add: flp_def)
  also have "2 powi 53 * ulp y = 2 powi (expo y + 1)"
    unfolding ulp_def two_powi_mult by (simp add: add.commute)
  finally show ?thesis .
qed

lemma flp_lower:
  assumes "- 1022 < expo y"
  shows "2 powi (expo y) \<le> flp y"
proof -
  have "2 powi (expo y) \<le> y" using assms by (rule expo_lower')
  then have "2 powi (expo y) / ulp y \<le> y / ulp y"
    by (intro divide_right_mono) simp_all
  moreover have "2 powi (expo y) / ulp y = 2 powi 52"
    by (simp add: ulp_def two_powi_div)
  ultimately have "of_int (2 ^ 52) \<le> y / ulp y" by simp
  then have "2 ^ 52 \<le> rne (y / ulp y)" by (rule rne_ge)
  then have "(of_int (2 ^ 52) :: real) \<le> of_int (rne (y / ulp y))" by (simp only: of_int_le_iff)
  then have "2 powi 52 * ulp y \<le> flp y"
    by (simp add: flp_def)
  moreover have "2 powi 52 * ulp y = 2 powi (expo y)"
    unfolding ulp_def two_powi_mult by simp
  ultimately show ?thesis by simp
qed

lemma flp_mono:
  assumes "0 \<le> x" and "x \<le> y"
  shows "flp x \<le> flp y"
proof (cases "expo x = expo y")
  case True
  then have u: "ulp x = ulp y" by (simp add: ulp_def)
  have "x / ulp y \<le> y / ulp y" using assms(2) by (intro divide_right_mono) simp_all
  then have "rne (x / ulp y) \<le> rne (y / ulp y)" by (rule rne_mono)
  then have "(of_int (rne (x / ulp y)) :: real) \<le> of_int (rne (y / ulp y))" by simp
  then show ?thesis by (simp add: flp_def u)
next
  case False
  have "expo x \<le> expo y" using assms(2) by (rule expo_mono)
  with False have lt: "expo x < expo y" by simp
  have "expo x < 1023" using lt expo_range [of y] by simp
  with assms(1) have a: "flp x \<le> 2 powi (expo x + 1)" by (rule flp_upper)
  have "- 1022 < expo y" using lt expo_range [of x] by simp
  then have b: "2 powi (expo y) \<le> flp y" by (rule flp_lower)
  have "(2::real) powi (expo x + 1) \<le> 2 powi (expo y)"
    by (rule two_powi_mono) (use lt in simp)
  with a b show ?thesis by linarith
qed

lemma flp_idem:
  assumes "0 \<le> y"
  shows "flp (flp y) = flp y"
proof (rule flp_exact)
  define M where "M = rne (y / ulp y)"
  have z: "flp y = of_int M * 2 powi (expo y - 52)"
    by (simp add: flp_def M_def ulp_def)
  show "flp y / ulp (flp y) \<in> \<int>"
  proof (cases "expo (flp y) \<le> expo y")
    case True
    have "flp y / ulp (flp y) = of_int M * (2 powi (expo y - 52) / 2 powi (expo (flp y) - 52))"
      by (simp add: z ulp_def)
    also have "\<dots> = of_int M * 2 powi (expo y - expo (flp y))"
      by (simp add: two_powi_div)
    finally show ?thesis using True by (simp add: two_powi_Ints)
  next
    case False
    then have lt: "expo y + 1 \<le> expo (flp y)" by simp
    have "expo y < 1023" using lt expo_range [of "flp y"] by simp
    with assms have a: "flp y \<le> 2 powi (expo y + 1)" by (rule flp_upper)
    have "- 1022 < expo (flp y)" using lt expo_range [of y] by simp
    then have b: "2 powi (expo (flp y)) \<le> flp y" by (rule expo_lower')
    have c: "(2::real) powi (expo y + 1) \<le> 2 powi (expo (flp y))"
      using lt by (rule two_powi_mono)
    have e: "expo (flp y) = expo y + 1"
    proof (rule ccontr)
      assume "expo (flp y) \<noteq> expo y + 1"
      with lt have "expo y + 1 < expo (flp y)" by simp
      then have "(2::real) powi (expo y + 1) < 2 powi (expo (flp y))" by (rule two_powi_less)
      with a b show False by linarith
    qed
    have fy: "flp y = 2 powi (expo y + 1)" using a b c by (simp add: e)
    have u: "ulp (flp y) = 2 powi (expo y + 1 - 52)" by (simp add: ulp_def e)
    have "flp y / ulp (flp y) = flp y / 2 powi (expo y + 1 - 52)" by (simp only: u)
    also have "\<dots> = 2 powi (expo y + 1) / 2 powi (expo y + 1 - 52)" by (simp only: fy)
    also have "\<dots> = 2 powi 52" by (simp add: two_powi_div)
    finally show ?thesis by simp
  qed
qed

lemma flp_grid:
  assumes "0 \<le> m" and "m < 2 ^ 53" and "- 1074 \<le> j"
  shows "flp (of_int m * 2 powi j) = of_int m * 2 powi j"
proof (rule flp_exact)
  let ?y = "of_int m * (2::real) powi j"
  have q: "expo ?y - 52 \<le> j"
  proof (cases "- 1022 < expo ?y")
    case True
    then have "2 powi (expo ?y) \<le> ?y" by (rule expo_lower')
    also have "?y < of_int (2 ^ 53) * 2 powi j"
      using assms(2) by (intro mult_strict_right_mono) (simp_all only: of_int_less_iff two_powi_pos)
    also have "\<dots> = 2 powi (53 + j)" by (simp add: power_int_add)
    finally have "\<not> 53 + j \<le> expo ?y"
      using two_powi_mono [of "53 + j" "expo ?y"] by auto
    then show ?thesis by simp
  next
    case False
    then show ?thesis using assms(3) expo_range [of ?y] by simp
  qed
  have "?y / ulp ?y = of_int m * (2 powi j / 2 powi (expo ?y - 52))"
    by (simp add: ulp_def)
  also have "\<dots> = of_int m * 2 powi (j - (expo ?y - 52))"
    by (simp only: two_powi_div)
  finally show "?y / ulp ?y \<in> \<int>" using q by (simp add: two_powi_Ints)
qed

lemma flp_0 [simp]: "flp 0 = 0"
  by (simp add: flp_def rne_def)

lemma fl_0 [simp]: "fl 0 = 0"
  by (simp add: fl_def)

lemma fl_nonneg: "0 \<le> x \<Longrightarrow> 0 \<le> fl x"
  by (simp add: fl_def flp_nonneg)

lemma fl_nonpos: "x \<le> 0 \<Longrightarrow> fl x \<le> 0"
  using flp_nonneg [of "- x"] by (cases "x = 0") (simp_all add: fl_def)

lemma fl_minus: "fl (- x) = - fl x"
  by (cases "x = 0") (auto simp add: fl_def)

lemma fl_mono:
  assumes "x \<le> y"
  shows "fl x \<le> fl y"
proof (cases "0 \<le> x")
  case True
  then show ?thesis using assms by (simp add: fl_def flp_mono)
next
  case x: False
  show ?thesis
  proof (cases "0 \<le> y")
    case True
    have "fl x \<le> 0" using x by (intro fl_nonpos) simp
    moreover have "0 \<le> fl y" using True by (rule fl_nonneg)
    ultimately show ?thesis by simp
  next
    case False
    then have "flp (- y) \<le> flp (- x)" using assms by (intro flp_mono) simp_all
    then show ?thesis using x False by (simp add: fl_def)
  qed
qed

lemma fl_idem [simp]: "fl (fl x) = fl x"
proof (cases "0 \<le> x")
  case True
  then have "0 \<le> flp x" by (rule flp_nonneg)
  then show ?thesis using True by (simp add: fl_def flp_idem)
next
  case False
  then have n: "0 \<le> - x" by simp
  then have p: "0 \<le> flp (- x)" by (rule flp_nonneg)
  have "fl x = - flp (- x)" using False by (simp add: fl_def)
  moreover have "fl (- flp (- x)) = - fl (flp (- x))" by (rule fl_minus)
  moreover have "fl (flp (- x)) = flp (flp (- x))" using p by (simp add: fl_def)
  ultimately show ?thesis using n by (simp add: flp_idem)
qed

lemma fl_grid:
  assumes "\<bar>m\<bar> < 2 ^ 53" and "- 1074 \<le> j"
  shows "fl (of_int m * 2 powi j) = of_int m * 2 powi j"
proof (cases "0 \<le> m")
  case True
  then have "0 \<le> of_int m * (2::real) powi j"
    by (intro mult_nonneg_nonneg less_imp_le [OF two_powi_pos]) simp
  then have "\<not> of_int m * (2::real) powi j < 0" by simp
  moreover have "flp (of_int m * 2 powi j) = of_int m * 2 powi j"
    using True assms by (intro flp_grid) simp_all
  ultimately show ?thesis by (simp only: fl_def if_False)
next
  case False
  then have "0 \<le> - m" "- m < 2 ^ 53" using assms(1) by simp_all
  then have "flp (of_int (- m) * 2 powi j) = of_int (- m) * 2 powi j"
    using assms(2) by (rule flp_grid)
  moreover have "of_int m * (2::real) powi j < 0"
    using False by (simp add: mult_less_0_iff)
  ultimately show ?thesis by (simp add: fl_def)
qed

lemma fl_of_int: "\<bar>n\<bar> < 2 ^ 53 \<Longrightarrow> fl (of_int n) = of_int n"
  using fl_grid [of n 0] by simp


lemma fl_err: "\<bar>fl x - x\<bar> \<le> ulp \<bar>x\<bar> / 2"
proof (cases "x < 0")
  case True
  have "\<bar>fl x - x\<bar> = \<bar>flp (- x) - (- x)\<bar>" using True by (simp add: fl_def)
  also have "\<dots> \<le> ulp (- x) / 2" by (rule flp_err)
  finally show ?thesis using True by simp
next
  case False
  then show ?thesis using flp_err [of x] by (simp add: fl_def)
qed

lemma fl_1 [simp]: "fl 1 = 1"
  using fl_of_int [of 1] by simp

lemma fl_abs: "fl \<bar>x\<bar> = \<bar>fl x\<bar>"
proof (cases "0 \<le> x")
  case True
  then show ?thesis using fl_nonneg [of x] by simp
next
  case False
  then show ?thesis using fl_nonpos [of x] by (simp add: fl_minus)
qed

subsection \<open>The type of doubles\<close>

typedef double = "{x::real. fl x = x}"
  morphisms val Double
  by (rule exI [of _ 0]) simp

setup_lifting type_definition_double

instantiation double :: "{zero, one, plus, minus, uminus, times, inverse, abs, linorder}"
begin

lift_definition zero_double :: double is 0 by simp
lift_definition one_double :: double is 1 by simp
lift_definition plus_double :: "double \<Rightarrow> double \<Rightarrow> double" is "\<lambda>a b. fl (a + b)" by simp
lift_definition minus_double :: "double \<Rightarrow> double \<Rightarrow> double" is "\<lambda>a b. fl (a - b)" by simp
lift_definition uminus_double :: "double \<Rightarrow> double" is "\<lambda>a. - a" by (simp add: fl_minus)
lift_definition times_double :: "double \<Rightarrow> double \<Rightarrow> double" is "\<lambda>a b. fl (a * b)" by simp
lift_definition divide_double :: "double \<Rightarrow> double \<Rightarrow> double" is "\<lambda>a b. fl (a / b)" by simp
lift_definition inverse_double :: "double \<Rightarrow> double" is "\<lambda>a. fl (1 / a)" by simp
lift_definition abs_double :: "double \<Rightarrow> double" is "\<lambda>a. \<bar>a\<bar>" by (simp add: fl_abs)
lift_definition less_eq_double :: "double \<Rightarrow> double \<Rightarrow> bool" is "(\<le>)" .
lift_definition less_double :: "double \<Rightarrow> double \<Rightarrow> bool" is "(<)" .

instance
  by standard (transfer, force)+

end

text \<open>A literal of the source: the double nearest to the decimal written there.\<close>

lift_definition D :: "real \<Rightarrow> double" is fl by simp

subsection \<open>Doubles as reals\<close>

lemmas val_zero = zero_double.rep_eq
lemmas val_one = one_double.rep_eq
lemmas val_plus = plus_double.rep_eq
lemmas val_minus = minus_double.rep_eq
lemmas val_uminus = uminus_double.rep_eq
lemmas val_times = times_double.rep_eq
lemmas val_divide = divide_double.rep_eq
lemmas val_abs = abs_double.rep_eq
lemmas val_D = D.rep_eq
lemmas double_le = less_eq_double.rep_eq
lemmas double_less = less_double.rep_eq

lemma fl_val [simp]: "fl (val a) = val a"
  using val [of a] by simp

lemma double_eq: "a = b \<longleftrightarrow> val a = val b"
  by (simp add: val_inject)

lemma val_max: "val (max a b) = max (val a) (val b)"
  by (simp add: max_def double_le)

lemma val_min: "val (min a b) = min (val a) (val b)"
  by (simp add: min_def double_le)

lemma D_val [simp]: "D (val a) = a"
  by (simp add: double_eq val_D)

text \<open>Evaluating closed terms: every operation on literals is a literal again.\<close>

lemma D_zero: "(0::double) = D 0"
  by (simp add: double_eq val_D val_zero)

lemma D_one: "(1::double) = D 1"
  by (simp add: double_eq val_D val_one)

lemma D_plus: "D x + D y = D (fl x + fl y)"
  by (simp add: double_eq val_D val_plus)

lemma D_minus: "D x - D y = D (fl x - fl y)"
  by (simp add: double_eq val_D val_minus)

lemma D_uminus: "- D x = D (- fl x)"
  by (simp add: double_eq val_D val_uminus fl_minus)

lemma D_times: "D x * D y = D (fl x * fl y)"
  by (simp add: double_eq val_D val_times)

lemma D_divide: "D x / D y = D (fl x / fl y)"
  by (simp add: double_eq val_D val_divide)

lemma D_abs: "\<bar>D x\<bar> = D \<bar>fl x\<bar>"
  by (simp add: double_eq val_D val_abs fl_abs)

lemma D_le: "D x \<le> D y \<longleftrightarrow> fl x \<le> fl y"
  by (simp add: double_le val_D)

lemma D_less: "D x < D y \<longleftrightarrow> fl x < fl y"
  by (simp add: double_less val_D)

lemma D_eq: "D x = D y \<longleftrightarrow> fl x = fl y"
  by (simp add: double_eq val_D)

lemma fl_numeral: "numeral k < (2::int) ^ 53 \<Longrightarrow> fl (numeral k) = numeral k"
  using fl_of_int [of "numeral k"] by simp

lemma fl_neg_numeral: "numeral k < (2::int) ^ 53 \<Longrightarrow> fl (- numeral k) = - numeral k"
  using fl_of_int [of "- numeral k"] by simp

lemma bexp_numeral:
  "bexp (numeral k) y = (if y < 2 then 0 else 1 + bexp (pred_numeral k) (y / 2))"
  by (simp add: numeral_eq_Suc)

lemma sexp_numeral:
  "sexp (numeral k) y = (if 1 \<le> y then 0 else sexp (pred_numeral k) (2 * y) - 1)"
  by (simp add: numeral_eq_Suc)

lemmas fl_eval = fl_def flp_def ulp_def expo_def bexp_numeral sexp_numeral rne_def Let_def

lemmas double_eval =
  D_zero D_one D_plus D_minus D_uminus D_times D_divide D_abs D_le D_less D_eq val_D
  fl_numeral fl_neg_numeral

subsection \<open>Order and sign\<close>

lemma val_nonneg_iff: "0 \<le> a \<longleftrightarrow> 0 \<le> val a"
  by (simp add: double_le val_zero)

lemma val_pos_iff: "0 < a \<longleftrightarrow> 0 < val a"
  by (simp add: double_less val_zero)

lemma val_nonpos_iff: "a \<le> 0 \<longleftrightarrow> val a \<le> 0"
  by (simp add: double_le val_zero)

lemma fl_le_double: "x \<le> val a \<Longrightarrow> fl x \<le> val a"
  using fl_mono [of x "val a"] by simp

lemma fl_ge_double: "val a \<le> x \<Longrightarrow> val a \<le> fl x"
  using fl_mono [of "val a" x] by simp






lemma minus_le_self: "0 \<le> b \<Longrightarrow> a - b \<le> (a::double)"
  by (simp add: double_le val_minus val_zero fl_le_double)

lemma plus_ge_self: "0 \<le> b \<Longrightarrow> a \<le> a + (b::double)"
  by (simp add: double_le val_plus val_zero fl_ge_double)

subsection \<open>Exact arithmetic on a grid\<close>

text \<open>
  A sum or difference of multiples of \<open>2 powi (- 20)\<close> is such a multiple again, and
  below \<open>2 ^ 33\<close> it has at most 53 significant bits: no rounding takes place.
\<close>

definition grid :: "real \<Rightarrow> bool" where
  "grid x = (x * 2 ^ 20 \<in> \<int>)"

lemma grid_0 [simp]: "grid 0"
  by (simp add: grid_def)

lemma grid_numeral [simp]: "grid (numeral k)"
  by (simp add: grid_def)

lemma grid_of_int [simp]: "grid (of_int n)"
  by (simp add: grid_def)

lemma grid_add: "grid x \<Longrightarrow> grid y \<Longrightarrow> grid (x + y)"
  by (simp add: grid_def algebra_simps)

lemma grid_diff: "grid x \<Longrightarrow> grid y \<Longrightarrow> grid (x - y)"
  by (simp add: grid_def algebra_simps)

lemma grid_minus: "grid x \<Longrightarrow> grid (- x)"
  by (simp add: grid_def)

lemma fl_on_grid:
  assumes "grid x" and "\<bar>x\<bar> < 2 ^ 33"
  shows "fl x = x"
proof -
  from assms(1) obtain m :: int where m: "x * 2 ^ 20 = of_int m"
    by (auto simp add: grid_def Ints_def)
  have "\<bar>x * 2 ^ 20\<bar> < 2 ^ 33 * 2 ^ 20"
    using assms(2) by (simp add: abs_mult)
  then have "\<bar>(of_int m :: real)\<bar> < 2 ^ 33 * 2 ^ 20" by (simp only: m)
  then have "\<bar>(of_int m :: real)\<bar> < of_int (2 ^ 53)" by simp
  then have "(of_int \<bar>m\<bar> :: real) < of_int (2 ^ 53)" by simp
  then have b: "\<bar>m\<bar> < 2 ^ 53" by (simp only: of_int_less_iff)
  have x: "x = of_int m * 2 powi (- 20)"
    using m by (simp add: power_int_minus_divide field_simps)
  have "fl (of_int m * 2 powi (- 20)) = of_int m * 2 powi (- 20)"
    using b by (rule fl_grid) simp
  then show ?thesis by (simp only: x [symmetric])
qed

lemma val_plus_grid:
  "grid (val a) \<Longrightarrow> grid (val b) \<Longrightarrow> \<bar>val a + val b\<bar> < 2 ^ 33
     \<Longrightarrow> val (a + b) = val a + val b"
  by (simp add: val_plus fl_on_grid grid_add)

lemma val_minus_grid:
  "grid (val a) \<Longrightarrow> grid (val b) \<Longrightarrow> \<bar>val a - val b\<bar> < 2 ^ 33
     \<Longrightarrow> val (a - b) = val a - val b"
  by (simp add: val_minus fl_on_grid grid_diff)

lemma val_D_grid: "grid x \<Longrightarrow> \<bar>x\<bar> < 2 ^ 33 \<Longrightarrow> val (D x) = x"
  by (simp add: val_D fl_on_grid)

lemma val_D_numeral [simp]: "numeral k < (2::int) ^ 53 \<Longrightarrow> val (D (numeral k)) = numeral k"
  by (simp add: val_D fl_numeral)

section \<open>Conventions\<close>

text \<open>
  The combat core of the game: the Player entity (Player.ts), the Enemy entity
  (Enemy.ts), the enemy AI controller (EnemyAIController.ts) and the hit resolution
  of the game scene (GameScene.ts).

  JavaScript numbers are values of \<^typ>\<open>double\<close>; counters that only ever hold small
  integers are \<^typ>\<open>int\<close>.  Every method that mutates \<^verbatim>\<open>this\<close> becomes a function from
  the object's record to the updated record.  A call that can throw returns a
  \<open>result\<close>: \<open>Return v s\<close> when it returns \<open>v\<close> and leaves the object as \<open>s\<close>, and
  \<open>Raise err s\<close> when it throws after having changed the object to \<open>s\<close>; the statements
  after the throwing one are not run.  What the Phaser engine owns is explicit:
  \<^item> the sprite and its arcade body are fields of the record (position, velocity,
    acceleration, \<^verbatim>\<open>blocked.down\<close>, the key of the animation last played, \<^verbatim>\<open>flipX\<close>);
    the physics engine rewriting them is an event of its own;
  \<^item> \<^verbatim>\<open>sprite.play(key)\<close> makes \<open>key\<close> the current animation.  PreloadScene.ts loads
    a texture for every animation of the player and for \<^verbatim>\<open>enemy-idle\<close>,
    \<^verbatim>\<open>enemy-running\<close>, \<^verbatim>\<open>enemy-punch\<close>, \<^verbatim>\<open>enemy-sidekick\<close> and
    \<^verbatim>\<open>enemy-getting-punched\<close>, but none for \<^verbatim>\<open>enemy-jump-sidekick\<close> and
    \<^verbatim>\<open>enemy-getting-punched-stomach\<close>: these two animations are created without
    frames, and playing one throws a \<^verbatim>\<open>TypeError\<close> when the engine shows its first frame,
    after it has become the current animation;
  \<^item> \<^verbatim>\<open>sprite.once('animationcomplete', f)\<close> appends \<open>f\<close> to the list of registered
    one-shot listeners; the sprite emitting the event runs and removes every listener
    registered so far, in registration order (\<^verbatim>\<open>play\<close> of another animation emits
    nothing and removes nothing);
  \<^item> \<^verbatim>\<open>scene.time.delayedCall(d, f)\<close> appends a timer event with elapsed time 0 and
    delay \<open>d\<close>; the scene clock adds the frame's delta to every pending event before
    the scene's \<^verbatim>\<open>update\<close> runs, and an event fires once its elapsed time has reached
    its delay;
  \<^item> a tween of duration \<open>d\<close> with \<^verbatim>\<open>yoyo: true\<close> and \<^verbatim>\<open>repeat: 0\<close> is stepped by the tween
    manager once per frame, before the scene's \<^verbatim>\<open>update\<close> runs, with the frame's delta.
    Its first step only starts it and consumes no time.  Each later step adds the delta
    to the elapsed time of the running leg; a forward leg whose elapsed time has
    reached \<open>d\<close> ends in that step and hands the overshoot to the backward leg; a
    backward leg whose elapsed time has reached \<open>d\<close> ends the tween in that step, which
    calls \<^verbatim>\<open>onComplete\<close>;
  \<^item> the values the input manager, \<^verbatim>\<open>Math.random\<close> and the scene callbacks return
    during one update are the fields of an input record;
  \<^item> sound, tint, tweens of the scale and the health bar widgets have no effect on
    the combat state and are left out.
\<close>

datatype error = TypeError

datatype ('a, 's) result = Return 'a 's | Raise error 's

fun stateOf :: "('a, 's) result \<Rightarrow> 's" where
  "stateOf (Return v s) = s"
| "stateOf (Raise err s) = s"

fun raised :: "('a, 's) result \<Rightarrow> bool" where
  "raised (Return v s) = False"
| "raised (Raise err s) = True"

text \<open>\<open>andThen r f\<close>: the statements \<open>f\<close> that follow a call \<open>r\<close>, run only when it returns.\<close>

definition andThen :: "('a, 's) result \<Rightarrow> ('s \<Rightarrow> ('b, 's) result) \<Rightarrow> ('b, 's) result" where
  "andThen r f = (case r of Return v s \<Rightarrow> f s | Raise err s \<Rightarrow> Raise err s)"

section \<open>Player (Player.ts)\<close>

subsection \<open>Configuration\<close>

definition P_ACCELERATION :: double where "P_ACCELERATION = D 1500"
definition P_JUMP_VELOCITY :: double where "P_JUMP_VELOCITY = - D 450"
definition P_MAX_JUMPS :: int where "P_MAX_JUMPS = 2"
definition P_JUMP_BUFFER_TIME :: double where "P_JUMP_BUFFER_TIME = D 150"
definition P_MAX_HEALTH :: double where "P_MAX_HEALTH = D 100"
definition P_INVINCIBILITY_DURATION :: double where "P_INVINCIBILITY_DURATION = D 500"
definition P_KNOCKBACK_FORCE :: double where "P_KNOCKBACK_FORCE = D 250"
definition COMBO_WINDOW :: double where "COMBO_WINDOW = D 800"
definition COMBO_MIN_DELAY :: double where "COMBO_MIN_DELAY = D 250"
definition DAMAGE_PUNCH :: double where "DAMAGE_PUNCH = D 10"
definition DAMAGE_UPPERCUT :: double where "DAMAGE_UPPERCUT = D 20"
definition DAMAGE_AERIAL_PUNCH :: double where "DAMAGE_AERIAL_PUNCH = D 15"

subsection \<open>Data\<close>

datatype PlayerState =
  P_IDLE | P_RUNNING | P_JUMPING | P_FALLING | P_ATTACKING | P_HURT | P_DEAD | P_DODGING

datatype PlayerAttack = Punch | Uppercut | AerialPunch

datatype PlayerAnim =
  Juan_idle | Running_animation | Juan_jump | Juan_punch | Juan_uppercut
  | Juan_aerial_punch | Juan_getting_punched | Juan_getting_punched_stomach
  | Juan_dodge | Juan_matrix_dodge | Juan_kipup

text \<open>The two closures the player registers on \<^verbatim>\<open>animationcomplete\<close>.\<close>

datatype PlayerCallback =
  ReturnToIdle      \<comment> \<open>\<^verbatim>\<open>() => { currentState = IDLE; sprite.play('juan-idle') }\<close>\<close>
  | AttackDone      \<comment> \<open>\<^verbatim>\<open>() => { currentAttackType = null; onAttackComplete() }\<close>\<close>

text \<open>A pending \<^verbatim>\<open>scene.time.delayedCall\<close>: the clock's timer event.\<close>

record TimerEvent =
  te_elapsed :: double
  te_delay :: double

record Player =
  p_x :: double
  p_y :: double
  p_velocityX :: double
  p_velocityY :: double
  p_accelerationX :: double
  p_accelerationY :: double
  p_blockedDown :: bool
  p_bodyWidth :: double
  p_bodyHeight :: double
  p_anim :: "PlayerAnim option"
  p_flipX :: bool
  p_jumpsRemaining :: int
  p_currentState :: PlayerState
  p_facingRight :: bool
  p_comboCount :: int
  p_comboTimer :: double
  p_comboDelayTimer :: double
  p_bufferedAttack :: "PlayerAttack option"
  p_jumpBufferTimer :: double
  p_maxHealth :: double
  p_currentHealth :: double
  p_isInvincible :: bool
  p_invincibilityTimer :: double
  p_currentAttackType :: "PlayerAttack option"
  p_counterDodgeQueued :: bool
  p_listeners :: "PlayerCallback list"
  p_delayedCalls :: "TimerEvent list"

text \<open>
  What one call of \<^verbatim>\<open>Player.update\<close> reads from outside: the input manager's answers,
  the two scene callbacks of the counter-dodge (\<open>None\<close> while the callback is still
  \<^verbatim>\<open>null\<close>) and the value of \<^verbatim>\<open>Math.random()\<close>.
\<close>

record Input =
  isMovingLeft :: bool
  isMovingRight :: bool
  isJumpPressed :: bool
  isPunchPressed :: bool
  isUppercutPressed :: bool
  isDebugHurtPressed :: bool
  isDebugHurtStomachPressed :: bool
  isDodgePressed :: bool
  isMatrixDodgePressed :: bool
  isCounterDodgePressed :: bool
  isAnyEnemyShowingWarning :: "bool option"
  getTimeUntilEnemyAttack :: "double option"
  random :: double

text \<open>
  The constructor: field initialisers, the body sized \<^verbatim>\<open>setSize(80, 200)\<close> on a sprite
  scaled by 0.65, then \<^verbatim>\<open>sprite.play('juan-idle')\<close>.
\<close>

definition newPlayer :: "double \<Rightarrow> double \<Rightarrow> Player" where
  "newPlayer x y = \<lparr>
     p_x = x, p_y = y, p_velocityX = 0, p_velocityY = 0,
     p_accelerationX = 0, p_accelerationY = 0, p_blockedDown = False,
     p_bodyWidth = D 80 * D 0.65, p_bodyHeight = D 200 * D 0.65,
     p_anim = Some Juan_idle, p_flipX = False,
     p_jumpsRemaining = P_MAX_JUMPS, p_currentState = P_IDLE, p_facingRight = True,
     p_comboCount = 0, p_comboTimer = 0, p_comboDelayTimer = 0,
     p_bufferedAttack = None, p_jumpBufferTimer = 0,
     p_maxHealth = P_MAX_HEALTH, p_currentHealth = P_MAX_HEALTH,
     p_isInvincible = False, p_invincibilityTimer = 0,
     p_currentAttackType = None, p_counterDodgeQueued = False,
     p_listeners = [], p_delayedCalls = [] \<rparr>"

subsection \<open>Hurt reactions and dodges\<close>

definition play :: "PlayerAnim \<Rightarrow> Player \<Rightarrow> Player" where
  "play k s = s\<lparr>p_anim := Some k\<rparr>"

definition once :: "PlayerCallback \<Rightarrow> Player \<Rightarrow> Player" where
  "once f s = s\<lparr>p_listeners := p_listeners s @ [f]\<rparr>"

definition triggerHurt :: "Player \<Rightarrow> Player" where
  "triggerHurt s =
     (if p_currentState s = P_HURT then s
      else once ReturnToIdle (play Juan_getting_punched (s\<lparr>p_currentState := P_HURT\<rparr>)))"

definition triggerHurtStomach :: "Player \<Rightarrow> Player" where
  "triggerHurtStomach s =
     (if p_currentState s = P_HURT then s
      else once ReturnToIdle
             (play Juan_getting_punched_stomach (s\<lparr>p_currentState := P_HURT\<rparr>)))"

definition handleDebugHurt :: "Input \<Rightarrow> Player \<Rightarrow> Player" where
  "handleDebugHurt i s =
     (let s1 = (if isDebugHurtPressed i then triggerHurt s else s)
      in if isDebugHurtStomachPressed i then triggerHurtStomach s1 else s1)"

definition performDodge :: "Player \<Rightarrow> Player" where
  "performDodge s = once ReturnToIdle (play Juan_dodge (s\<lparr>p_currentState := P_DODGING\<rparr>))"

definition handleDodge :: "Input \<Rightarrow> Player \<Rightarrow> Player" where
  "handleDodge i s =
     (if p_currentState s = P_DODGING \<or> p_currentState s = P_ATTACKING
         \<or> p_currentState s = P_HURT then s
      else if isDodgePressed i then performDodge s else s)"

definition performMatrixDodge :: "Player \<Rightarrow> Player" where
  "performMatrixDodge s =
     once ReturnToIdle (play Juan_matrix_dodge (s\<lparr>p_currentState := P_DODGING\<rparr>))"

definition handleMatrixDodge :: "Input \<Rightarrow> Player \<Rightarrow> Player" where
  "handleMatrixDodge i s =
     (if p_currentState s = P_DODGING \<or> p_currentState s = P_ATTACKING
         \<or> p_currentState s = P_HURT then s
      else if isMatrixDodgePressed i then performMatrixDodge s else s)"

subsection \<open>Counter-dodge\<close>

text \<open>
  \<^verbatim>\<open>dodgeAnimations[Math.floor(Math.random() * 3)]\<close>; \<^verbatim>\<open>Math.random()\<close> lies in \<open>[0, 1)\<close>,
  so the index is 0, 1 or 2.  The parameter \<open>successful\<close> only selects a scale tween.
\<close>

definition dodgeAnimation :: "double \<Rightarrow> PlayerAnim" where
  "dodgeAnimation r =
     (let randomIndex = \<lfloor>val (r * D 3)\<rfloor>
      in if randomIndex = 0 then Juan_dodge
         else if randomIndex = 1 then Juan_matrix_dodge else Juan_kipup)"

definition performCounterDodge :: "bool \<Rightarrow> double \<Rightarrow> Input \<Rightarrow> Player \<Rightarrow> Player" where
  "performCounterDodge successful delay i s =
     once ReturnToIdle
       (play (dodgeAnimation (random i))
          (s\<lparr>p_currentState := P_DODGING, p_counterDodgeQueued := False\<rparr>))"

definition queueCounterDodge :: "Input \<Rightarrow> Player \<Rightarrow> Player" where
  "queueCounterDodge i s =
     (let delayMs = (case getTimeUntilEnemyAttack i of None \<Rightarrow> 0 | Some t \<Rightarrow> t);
          s1 = s\<lparr>p_counterDodgeQueued := True,
                 p_isInvincible := True,
                 p_invincibilityTimer := delayMs + D 600\<rparr>
      in if delayMs > 0
         then s1\<lparr>p_delayedCalls :=
                   p_delayedCalls s1 @ [\<lparr>te_elapsed = 0, te_delay = delayMs\<rparr>]\<rparr>
         else performCounterDodge True 0 i s1)"

definition handleCounterDodge :: "Input \<Rightarrow> Player \<Rightarrow> Player" where
  "handleCounterDodge i s =
     (if p_currentState s = P_DODGING \<or> p_currentState s = P_ATTACKING
         \<or> p_currentState s = P_HURT \<or> p_counterDodgeQueued s then s
      else if isCounterDodgePressed i then
        (let enemyIsAttacking =
               (case isAnyEnemyShowingWarning i of None \<Rightarrow> False | Some b \<Rightarrow> b)
         in if enemyIsAttacking then queueCounterDodge i s
            else performCounterDodge False 0 i s)
      else s)"

subsection \<open>Attacks and the punch combo\<close>

definition performPunch :: "Player \<Rightarrow> Player" where
  "performPunch s =
     once AttackDone
       ((play Juan_punch
           (s\<lparr>p_currentState := P_ATTACKING, p_currentAttackType := Some Punch\<rparr>))
        \<lparr>p_comboCount := 1,
         p_comboTimer := COMBO_WINDOW,
         p_comboDelayTimer := COMBO_MIN_DELAY\<rparr>)"

definition performUppercut :: "Player \<Rightarrow> Player" where
  "performUppercut s =
     once AttackDone
       (play Juan_uppercut
          (s\<lparr>p_currentState := P_ATTACKING, p_currentAttackType := Some Uppercut\<rparr>))"

definition performAerialPunch :: "Player \<Rightarrow> Player" where
  "performAerialPunch s =
     once AttackDone
       (play Juan_aerial_punch
          (s\<lparr>p_currentState := P_ATTACKING, p_currentAttackType := Some AerialPunch\<rparr>))"

definition isOnGround :: "Player \<Rightarrow> bool" where
  "isOnGround s = p_blockedDown s"

definition handleAttack :: "Input \<Rightarrow> Player \<Rightarrow> Player" where
  "handleAttack i s =
     (if p_currentState s = P_HURT then s
      else
        (let punchPressed = isPunchPressed i;
             uppercutPressed = isUppercutPressed i;
             isAttacking = (p_currentState s = P_ATTACKING);
             isAirborne = (\<not> isOnGround s)
         in if isAirborne \<and> \<not> isAttacking \<and> punchPressed then performAerialPunch s
            else if punchPressed \<and> p_comboCount s = 1 \<and> p_comboDelayTimer s \<le> 0 then
              (performUppercut (s\<lparr>p_bufferedAttack := None\<rparr>))
                \<lparr>p_comboCount := 0, p_comboTimer := 0\<rparr>
            else if isAttacking then
              (if punchPressed then
                 s\<lparr>p_bufferedAttack := Some (if isAirborne then AerialPunch else Punch)\<rparr>
               else if uppercutPressed then s\<lparr>p_bufferedAttack := Some Uppercut\<rparr>
               else s)
            else if uppercutPressed then performUppercut s
            else if punchPressed then performPunch s
            else s))"

definition onAttackComplete :: "Player \<Rightarrow> Player" where
  "onAttackComplete s =
     (case p_bufferedAttack s of
        Some attack \<Rightarrow>
          (let s1 = s\<lparr>p_bufferedAttack := None\<rparr>
           in case attack of
                Punch \<Rightarrow> performPunch s1
              | Uppercut \<Rightarrow> performUppercut s1
              | AerialPunch \<Rightarrow> performAerialPunch s1)
      | None \<Rightarrow> play Juan_idle (s\<lparr>p_currentState := P_IDLE\<rparr>))"

subsection \<open>Movement, jump buffer, state and facing\<close>

definition handleMovement :: "Input \<Rightarrow> Player \<Rightarrow> Player" where
  "handleMovement i s =
     (if p_currentState s = P_ATTACKING \<or> p_currentState s = P_HURT
         \<or> p_currentState s = P_DODGING then s\<lparr>p_accelerationX := 0\<rparr>
      else if isMovingLeft i then
        s\<lparr>p_accelerationX := - P_ACCELERATION, p_facingRight := False\<rparr>
      else if isMovingRight i then
        s\<lparr>p_accelerationX := P_ACCELERATION, p_facingRight := True\<rparr>
      else s\<lparr>p_accelerationX := 0\<rparr>)"

definition handleJump :: "double \<Rightarrow> Input \<Rightarrow> Player \<Rightarrow> Player" where
  "handleJump delta i s =
     (let s1 = (if p_jumpBufferTimer s > 0
                then s\<lparr>p_jumpBufferTimer := p_jumpBufferTimer s - delta\<rparr> else s);
          s2 = (if isJumpPressed i
                then s1\<lparr>p_jumpBufferTimer := P_JUMP_BUFFER_TIME\<rparr> else s1);
          s3 = (if p_blockedDown s2
                then s2\<lparr>p_jumpsRemaining := P_MAX_JUMPS\<rparr> else s2)
      in if p_jumpBufferTimer s3 > 0 \<and> p_jumpsRemaining s3 > 0 then
           s3\<lparr>p_velocityY := P_JUMP_VELOCITY,
              p_jumpsRemaining := p_jumpsRemaining s3 - 1,
              p_jumpBufferTimer := 0\<rparr>
         else s3)"

definition playAnimationForState :: "Player \<Rightarrow> Player" where
  "playAnimationForState s =
     (case p_currentState s of
        P_IDLE \<Rightarrow> (if p_anim s \<noteq> Some Juan_idle then play Juan_idle s else s)
      | P_RUNNING \<Rightarrow>
          (if p_anim s \<noteq> Some Running_animation then play Running_animation s else s)
      | P_JUMPING \<Rightarrow> (if p_anim s \<noteq> Some Juan_jump then play Juan_jump s else s)
      | P_FALLING \<Rightarrow> (if p_anim s \<noteq> Some Juan_jump then play Juan_jump s else s)
      | _ \<Rightarrow> s)"

definition updateState :: "Player \<Rightarrow> Player" where
  "updateState s =
     (if p_currentState s = P_ATTACKING \<or> p_currentState s = P_HURT
         \<or> p_currentState s = P_DODGING then s
      else
        (let previousState = p_currentState s;
             s1 = (if \<not> p_blockedDown s
                   then s\<lparr>p_currentState :=
                            (if p_velocityY s < 0 then P_JUMPING else P_FALLING)\<rparr>
                   else s\<lparr>p_currentState :=
                            (if \<bar>p_velocityX s\<bar> > D 10 then P_RUNNING else P_IDLE)\<rparr>)
         in if p_currentState s1 \<noteq> previousState then playAnimationForState s1 else s1))"

definition updateFacing :: "Player \<Rightarrow> Player" where
  "updateFacing s =
     (let shouldFlip = (\<not> p_facingRight s)
      in if p_flipX s \<noteq> shouldFlip then s\<lparr>p_flipX := shouldFlip\<rparr> else s)"

subsection \<open>The per-frame update\<close>

definition updateTimers :: "double \<Rightarrow> Player \<Rightarrow> Player" where
  "updateTimers delta s =
     (let s1 = (if p_comboTimer s > 0 then
                  (let t = s\<lparr>p_comboTimer := p_comboTimer s - delta\<rparr>
                   in if p_comboTimer t \<le> 0 then t\<lparr>p_comboCount := 0\<rparr> else t)
                else s);
          s2 = (if p_comboDelayTimer s1 > 0
                then s1\<lparr>p_comboDelayTimer := p_comboDelayTimer s1 - delta\<rparr> else s1)
      in if p_invincibilityTimer s2 > 0 then
           (let t = s2\<lparr>p_invincibilityTimer := p_invincibilityTimer s2 - delta\<rparr>
            in if p_invincibilityTimer t \<le> 0 then t\<lparr>p_isInvincible := False\<rparr> else t)
         else s2)"

definition update :: "double \<Rightarrow> Input \<Rightarrow> Player \<Rightarrow> Player" where
  "update delta i s =
     updateFacing (updateState (handleJump delta i (handleMovement i (handleAttack i
       (handleMatrixDodge i (handleDodge i (handleCounterDodge i
         (handleDebugHurt i (updateTimers delta s)))))))))"

subsection \<open>Damage\<close>

definition takeDamage :: "double \<Rightarrow> double \<Rightarrow> Player \<Rightarrow> Player" where
  "takeDamage amount attackerX s =
     (if p_isInvincible s \<or> p_currentHealth s \<le> 0 then s
      else
        (let s1 = s\<lparr>p_currentHealth := max 0 (p_currentHealth s - amount)\<rparr>;
             knockbackDirection = (if p_x s1 < attackerX then - 1 else 1 :: double);
             s2 = s1\<lparr>p_velocityX := knockbackDirection * P_KNOCKBACK_FORCE\<rparr>;
             s3 = s2\<lparr>p_isInvincible := True,
                    p_invincibilityTimer := P_INVINCIBILITY_DURATION\<rparr>;
             s4 = triggerHurt s3
         in if p_currentHealth s4 \<le> 0 then
              s4\<lparr>p_currentState := P_DEAD,
                 p_velocityX := 0, p_velocityY := 0,
                 p_accelerationX := 0, p_accelerationY := 0\<rparr>
            else s4))"

definition isDead :: "Player \<Rightarrow> bool" where
  "isDead s = (p_currentHealth s \<le> 0)"

definition getIsInvincible :: "Player \<Rightarrow> bool" where
  "getIsInvincible s = p_isInvincible s"

definition getAttackDamage :: "Player \<Rightarrow> double" where
  "getAttackDamage s =
     (case p_currentAttackType s of
        None \<Rightarrow> 0
      | Some Punch \<Rightarrow> DAMAGE_PUNCH
      | Some Uppercut \<Rightarrow> DAMAGE_UPPERCUT
      | Some AerialPunch \<Rightarrow> DAMAGE_AERIAL_PUNCH)"


subsection \<open>Engine events\<close>

definition runCallback :: "PlayerCallback \<Rightarrow> Player \<Rightarrow> Player" where
  "runCallback f s =
     (case f of
        ReturnToIdle \<Rightarrow> play Juan_idle (s\<lparr>p_currentState := P_IDLE\<rparr>)
      | AttackDone \<Rightarrow> onAttackComplete (s\<lparr>p_currentAttackType := None\<rparr>))"

text \<open>The sprite emits \<^verbatim>\<open>animationcomplete\<close>.\<close>

definition animationComplete :: "Player \<Rightarrow> Player" where
  "animationComplete s =
     foldl (\<lambda>t f. runCallback f t) (s\<lparr>p_listeners := []\<rparr>) (p_listeners s)"

text \<open>
  The scene clock's update: \<^verbatim>\<open>event.elapsed += delta\<close> for every pending timer event,
  and every event with \<^verbatim>\<open>event.elapsed >= event.delay\<close> runs its callback
  \<^verbatim>\<open>() => this.performCounterDodge(true, 0)\<close> and is removed.
\<close>

definition clockUpdate :: "double \<Rightarrow> Input \<Rightarrow> Player \<Rightarrow> Player" where
  "clockUpdate delta i s =
     (let events = map (\<lambda>ev. ev\<lparr>te_elapsed := te_elapsed ev + delta\<rparr>) (p_delayedCalls s)
      in foldl (\<lambda>t ev. performCounterDodge True 0 i t)
           (s\<lparr>p_delayedCalls := filter (\<lambda>ev. \<not> te_elapsed ev \<ge> te_delay ev) events\<rparr>)
           (filter (\<lambda>ev. te_elapsed ev \<ge> te_delay ev) events))"

datatype PlayerEvent =
  Frame double Input                  \<comment> \<open>one frame: the clock, then \<^verbatim>\<open>Player.update()\<close>\<close>
  | TakeDamage double double          \<comment> \<open>\<^verbatim>\<open>takeDamage(amount, attackerX)\<close>\<close>
  | AnimationComplete                 \<comment> \<open>the sprite emits \<^verbatim>\<open>animationcomplete\<close>\<close>
  | Physics double double double double bool
      \<comment> \<open>the body is moved: x, y, velocity, \<^verbatim>\<open>blocked.down\<close>\<close>

fun playerStep :: "PlayerEvent \<Rightarrow> Player \<Rightarrow> Player" where
  "playerStep (Frame delta i) s = update delta i (clockUpdate delta i s)"
| "playerStep (TakeDamage amount attackerX) s = takeDamage amount attackerX s"
| "playerStep AnimationComplete s = animationComplete s"
| "playerStep (Physics x y vx vy down) s =
     s\<lparr>p_x := x, p_y := y, p_velocityX := vx, p_velocityY := vy, p_blockedDown := down\<rparr>"

definition playerRun :: "PlayerEvent list \<Rightarrow> Player \<Rightarrow> Player" where
  "playerRun evs s = foldl (\<lambda>t ev. playerStep ev t) s evs"

text \<open>
  Simulated time that passes during a list of events: the exact sum of the deltas of its
  frames.
\<close>

fun elapsed :: "PlayerEvent list \<Rightarrow> real" where
  "elapsed [] = 0"
| "elapsed (Frame delta i # evs) = val delta + elapsed evs"
| "elapsed (ev # evs) = elapsed evs"

section \<open>Enemy (Enemy.ts)\<close>

subsection \<open>Configuration\<close>

definition E_MOVE_SPEED :: double where "E_MOVE_SPEED = D 250"
definition E_ACCELERATION :: double where "E_ACCELERATION = D 1200"
definition E_JUMP_VELOCITY :: double where "E_JUMP_VELOCITY = - D 650"
definition E_MAX_HEALTH :: double where "E_MAX_HEALTH = D 300"
definition E_INVINCIBILITY_DURATION :: double where "E_INVINCIBILITY_DURATION = D 800"
definition E_KNOCKBACK_FORCE :: double where "E_KNOCKBACK_FORCE = D 250"
definition ATTACK_WARNING_DURATION :: double where "ATTACK_WARNING_DURATION = D 500"

subsection \<open>Data\<close>

text \<open>The source's \<^verbatim>\<open>EnemyState\<close> enum has six members; there is no dead state.\<close>

datatype EnemyState =
  E_IDLE | E_RUNNING | E_JUMPING | E_FALLING | E_ATTACKING | E_HURT

datatype EnemyAttack = E_punch | E_sidekick | E_jump_sidekick

datatype PendingAttack = Pending_punch | Pending_sidekick

datatype EnemyAnim =
  Enemy_idle | Enemy_running | Enemy_punch | Enemy_sidekick | Enemy_jump_sidekick
  | Enemy_getting_punched | Enemy_getting_punched_stomach

datatype EnemyCallback =
  E_AttackDone     \<comment> \<open>\<^verbatim>\<open>() => { currentAttackType = null; currentState = IDLE; play idle }\<close>\<close>
  | E_ReturnToIdle \<comment> \<open>\<^verbatim>\<open>() => { currentState = IDLE; play idle }\<close>\<close>

text \<open>
  The warning tween: the leg it is in (\<open>PendingRender\<close> until its first step), the
  elapsed time of that leg, the duration of a leg, and the attack its \<^verbatim>\<open>onComplete\<close>
  executes.
\<close>

datatype TweenPhase = PendingRender | PlayingForward | PlayingBackward

record Tween =
  tw_phase :: TweenPhase
  tw_elapsed :: double
  tw_duration :: double
  tw_attack :: PendingAttack

text \<open>
  \<open>e_warningContainer\<close> and \<open>e_warningGraphics\<close> say whether the two objects are
  non-null; \<open>e_warningTween\<close> holds the running warning tween.
\<close>

record Enemy =
  e_x :: double
  e_y :: double
  e_velocityX :: double
  e_velocityY :: double
  e_accelerationX :: double
  e_accelerationY :: double
  e_blockedDown :: bool
  e_bodyWidth :: double
  e_bodyHeight :: double
  e_anim :: "EnemyAnim option"
  e_flipX :: bool
  e_currentState :: EnemyState
  e_facingRight :: bool
  e_maxHealth :: double
  e_currentHealth :: double
  e_isInvincible :: bool
  e_invincibilityTimer :: double
  e_currentAttackType :: "EnemyAttack option"
  e_warningContainer :: bool
  e_warningGraphics :: bool
  e_warningVisible :: bool
  e_pendingAttack :: "PendingAttack option"
  e_warningTween :: "Tween option"
  e_attackExecuteTime :: double
  e_aiMovementDirection :: int
  e_aiJumpRequested :: bool
  e_targetX :: "double option"
  e_listeners :: "EnemyCallback list"

text \<open>
  What one call of \<^verbatim>\<open>Enemy.update\<close> reads from outside: the enemy test keys and
  \<^verbatim>\<open>scene.time.now\<close>.
\<close>

record EnemyInput =
  isEnemyMovingLeft :: bool
  isEnemyMovingRight :: bool
  isEnemyJumpPressed :: bool
  isEnemyPunchPressed :: bool
  isEnemySidekickPressed :: bool
  timeNow :: double

text \<open>
  The constructor; the body is sized \<^verbatim>\<open>setSize(100, 220)\<close> on a sprite scaled by 0.8.
\<close>

definition newEnemy :: "double \<Rightarrow> double \<Rightarrow> Enemy" where
  "newEnemy x y = \<lparr>
     e_x = x, e_y = y, e_velocityX = 0, e_velocityY = 0,
     e_accelerationX = 0, e_accelerationY = 0, e_blockedDown = False,
     e_bodyWidth = D 100 * D 0.8, e_bodyHeight = D 220 * D 0.8,
     e_anim = Some Enemy_idle, e_flipX = False,
     e_currentState = E_IDLE, e_facingRight = False,
     e_maxHealth = E_MAX_HEALTH, e_currentHealth = E_MAX_HEALTH,
     e_isInvincible = False, e_invincibilityTimer = 0,
     e_currentAttackType = None,
     e_warningContainer = True, e_warningGraphics = True, e_warningVisible = False,
     e_pendingAttack = None, e_warningTween = None, e_attackExecuteTime = 0,
     e_aiMovementDirection = 0, e_aiJumpRequested = False, e_targetX = None,
     e_listeners = [] \<rparr>"

subsection \<open>Attacks and the attack warning\<close>

definition e_play :: "EnemyAnim \<Rightarrow> Enemy \<Rightarrow> Enemy" where
  "e_play k e = e\<lparr>e_anim := Some k\<rparr>"

definition e_once :: "EnemyCallback \<Rightarrow> Enemy \<Rightarrow> Enemy" where
  "e_once f e = e\<lparr>e_listeners := e_listeners e @ [f]\<rparr>"

definition e_performPunch :: "Enemy \<Rightarrow> Enemy" where
  "e_performPunch e =
     e_once E_AttackDone
       (e_play Enemy_punch
          (e\<lparr>e_currentState := E_ATTACKING, e_currentAttackType := Some E_punch\<rparr>))"

text \<open>
  \<^verbatim>\<open>sprite.play('enemy-jump-sidekick')\<close> throws (no texture, no frames): the sound and
  the completion listener that follow it are never reached.
\<close>

definition e_performSidekick :: "Enemy \<Rightarrow> (unit, Enemy) result" where
  "e_performSidekick e =
     (let isAirborne = (\<not> e_blockedDown e);
          isRunning = (\<bar>e_velocityX e\<bar> > D 50);
          e1 = e\<lparr>e_currentState := E_ATTACKING\<rparr>
      in if isAirborne \<or> isRunning
         then Raise TypeError
                (e_play Enemy_jump_sidekick (e1\<lparr>e_currentAttackType := Some E_jump_sidekick\<rparr>))
         else Return ()
                (e_once E_AttackDone
                   (e_play Enemy_sidekick (e1\<lparr>e_currentAttackType := Some E_sidekick\<rparr>))))"

definition isShowingWarning :: "Enemy \<Rightarrow> bool" where
  "isShowingWarning e = (e_pendingAttack e \<noteq> None)"

definition getTimeUntilAttack :: "double \<Rightarrow> Enemy \<Rightarrow> double" where
  "getTimeUntilAttack now e =
     (if \<not> isShowingWarning e then 0 else max 0 (e_attackExecuteTime e - now))"

definition canAttack :: "Enemy \<Rightarrow> bool" where
  "canAttack e =
     (e_currentState e \<noteq> E_ATTACKING \<and> e_currentState e \<noteq> E_HURT
      \<and> e_currentHealth e > 0 \<and> \<not> isShowingWarning e)"

definition canJump :: "Enemy \<Rightarrow> bool" where
  "canJump e = (e_blockedDown e \<and> e_currentHealth e > 0)"

text \<open>
  The closures \<^verbatim>\<open>punch()\<close> and \<^verbatim>\<open>sidekick()\<close> hand to \<^verbatim>\<open>showAttackWarning\<close>:
  \<^verbatim>\<open>() => { if (this.canAttack()) this.performPunch(); }\<close> and its sidekick twin.
\<close>

definition attackCallback :: "PendingAttack \<Rightarrow> Enemy \<Rightarrow> (unit, Enemy) result" where
  "attackCallback a e =
     (if canAttack e
      then (case a of Pending_punch \<Rightarrow> Return () (e_performPunch e)
                    | Pending_sidekick \<Rightarrow> e_performSidekick e)
      else Return () e)"

text \<open>
  The warning tween is added with \<^verbatim>\<open>duration: ATTACK_WARNING_DURATION / 2\<close>,
  \<^verbatim>\<open>yoyo: true\<close> and \<^verbatim>\<open>repeat: 0\<close>: one leg forward and one leg back.
\<close>

definition newWarningTween :: "PendingAttack \<Rightarrow> Tween" where
  "newWarningTween attackType =
     \<lparr> tw_phase = PendingRender, tw_elapsed = 0,
       tw_duration = ATTACK_WARNING_DURATION / D 2, tw_attack = attackType \<rparr>"

definition showAttackWarning ::
  "PendingAttack \<Rightarrow> double \<Rightarrow> Enemy \<Rightarrow> (unit, Enemy) result" where
  "showAttackWarning attackType now e =
     (if \<not> e_warningContainer e \<or> \<not> e_warningGraphics e then attackCallback attackType e
      else Return ()
             (e\<lparr>e_pendingAttack := Some attackType,
                e_warningVisible := True,
                e_attackExecuteTime := now + ATTACK_WARNING_DURATION,
                e_warningTween := Some (newWarningTween attackType)\<rparr>))"

definition hideAttackWarning :: "Enemy \<Rightarrow> Enemy" where
  "hideAttackWarning e =
     (let e1 = (if e_warningContainer e then e\<lparr>e_warningVisible := False\<rparr> else e)
      in e1\<lparr>e_pendingAttack := None, e_warningTween := None\<rparr>)"

text \<open>The tween's \<^verbatim>\<open>onComplete\<close>: \<^verbatim>\<open>hideAttackWarning(); callback();\<close>\<close>

definition warningComplete :: "PendingAttack \<Rightarrow> Enemy \<Rightarrow> (unit, Enemy) result" where
  "warningComplete a e = attackCallback a (hideAttackWarning e)"

text \<open>
  One step of the scene's tween manager on the warning tween.  The first step of a
  tween resets its delta to 0 and renders the start value: the tween is playing forward
  afterwards, with no time elapsed.  A playing leg does \<^verbatim>\<open>elapsed += delta\<close>; with
  \<^verbatim>\<open>elapsed >= duration\<close> the forward leg turns into the backward leg, which starts
  at \<^verbatim>\<open>elapsed - duration\<close>, and the backward leg completes the tween.
\<close>

definition tweensUpdate :: "double \<Rightarrow> Enemy \<Rightarrow> (unit, Enemy) result" where
  "tweensUpdate delta e =
     (case e_warningTween e of
        None \<Rightarrow> Return () e
      | Some tw \<Rightarrow>
          (case tw_phase tw of
             PendingRender \<Rightarrow>
               Return () (e\<lparr>e_warningTween := Some (tw\<lparr>tw_phase := PlayingForward\<rparr>)\<rparr>)
           | PlayingForward \<Rightarrow>
               (let elapsed = tw_elapsed tw + delta
                in if elapsed \<ge> tw_duration tw
                   then Return ()
                          (e\<lparr>e_warningTween :=
                               Some (tw\<lparr>tw_phase := PlayingBackward,
                                        tw_elapsed := elapsed - tw_duration tw\<rparr>)\<rparr>)
                   else Return () (e\<lparr>e_warningTween := Some (tw\<lparr>tw_elapsed := elapsed\<rparr>)\<rparr>))
           | PlayingBackward \<Rightarrow>
               (let elapsed = tw_elapsed tw + delta
                in if elapsed \<ge> tw_duration tw
                   then warningComplete (tw_attack tw) e
                   else Return () (e\<lparr>e_warningTween := Some (tw\<lparr>tw_elapsed := elapsed\<rparr>)\<rparr>))))"

definition punch :: "double \<Rightarrow> Enemy \<Rightarrow> (bool, Enemy) result" where
  "punch now e =
     (if \<not> canAttack e \<or> isShowingWarning e then Return False e
      else andThen (showAttackWarning Pending_punch now e) (Return True))"

definition sidekick :: "double \<Rightarrow> Enemy \<Rightarrow> (bool, Enemy) result" where
  "sidekick now e =
     (if \<not> canAttack e \<or> isShowingWarning e then Return False e
      else andThen (showAttackWarning Pending_sidekick now e) (Return True))"

definition e_handleAttack :: "EnemyInput \<Rightarrow> Enemy \<Rightarrow> (unit, Enemy) result" where
  "e_handleAttack i e =
     (if e_currentState e = E_ATTACKING \<or> e_currentState e = E_HURT
         \<or> e_currentHealth e \<le> 0 \<or> isShowingWarning e then Return () e
      else if isEnemyPunchPressed i then andThen (punch (timeNow i) e) (Return ())
      else if isEnemySidekickPressed i then andThen (sidekick (timeNow i) e) (Return ())
      else Return () e)"

subsection \<open>Programmatic control surface\<close>

definition jump :: "Enemy \<Rightarrow> bool \<times> Enemy" where
  "jump e = (if \<not> canJump e then (False, e) else (True, e\<lparr>e_aiJumpRequested := True\<rparr>))"

definition startMovingLeft :: "Enemy \<Rightarrow> Enemy" where
  "startMovingLeft e = e\<lparr>e_aiMovementDirection := - 1\<rparr>"

definition startMovingRight :: "Enemy \<Rightarrow> Enemy" where
  "startMovingRight e = e\<lparr>e_aiMovementDirection := 1\<rparr>"

definition stopMoving :: "Enemy \<Rightarrow> Enemy" where
  "stopMoving e = e\<lparr>e_aiMovementDirection := 0, e_targetX := None\<rparr>"

definition moveLeftBy :: "double \<Rightarrow> Enemy \<Rightarrow> Enemy" where
  "moveLeftBy pixels e = e\<lparr>e_targetX := Some (e_x e - pixels), e_aiMovementDirection := - 1\<rparr>"

definition moveRightBy :: "double \<Rightarrow> Enemy \<Rightarrow> Enemy" where
  "moveRightBy pixels e = e\<lparr>e_targetX := Some (e_x e + pixels), e_aiMovementDirection := 1\<rparr>"

definition setFacing :: "bool \<Rightarrow> Enemy \<Rightarrow> Enemy" where
  "setFacing right e = e\<lparr>e_facingRight := right, e_flipX := (\<not> right)\<rparr>"

subsection \<open>Movement, jump, state and facing\<close>

definition e_handleMovement :: "EnemyInput \<Rightarrow> Enemy \<Rightarrow> Enemy" where
  "e_handleMovement i e =
     (if e_currentState e = E_HURT
         \<or> (e_currentState e = E_ATTACKING \<and> e_currentAttackType e \<noteq> Some E_jump_sidekick)
      then e\<lparr>e_accelerationX := 0\<rparr>
      else if (case e_targetX e of
                 None \<Rightarrow> False
               | Some tx \<Rightarrow> (e_aiMovementDirection e = - 1 \<and> e_x e \<le> tx)
                            \<or> (e_aiMovementDirection e = 1 \<and> e_x e \<ge> tx))
      then e\<lparr>e_aiMovementDirection := 0, e_targetX := None,
             e_accelerationX := 0, e_velocityX := 0\<rparr>
      else
        (let movingLeft = (isEnemyMovingLeft i \<or> e_aiMovementDirection e = - 1);
             movingRight = (isEnemyMovingRight i \<or> e_aiMovementDirection e = 1)
         in if movingLeft then
              (let e1 = e\<lparr>e_accelerationX := - E_ACCELERATION\<rparr>
               in if e_currentAttackType e1 \<noteq> Some E_jump_sidekick
                  then e1\<lparr>e_facingRight := False\<rparr> else e1)
            else if movingRight then
              (let e1 = e\<lparr>e_accelerationX := E_ACCELERATION\<rparr>
               in if e_currentAttackType e1 \<noteq> Some E_jump_sidekick
                  then e1\<lparr>e_facingRight := True\<rparr> else e1)
            else if e_currentAttackType e \<noteq> Some E_jump_sidekick
                 then e\<lparr>e_accelerationX := 0\<rparr> else e))"

definition e_handleJump :: "EnemyInput \<Rightarrow> Enemy \<Rightarrow> Enemy" where
  "e_handleJump i e =
     (let jumpRequested = (isEnemyJumpPressed i \<or> e_aiJumpRequested e);
          e1 = (if e_aiJumpRequested e then e\<lparr>e_aiJumpRequested := False\<rparr> else e)
      in if jumpRequested \<and> e_blockedDown e1
         then e1\<lparr>e_velocityY := E_JUMP_VELOCITY\<rparr> else e1)"

definition e_playAnimationForState :: "Enemy \<Rightarrow> Enemy" where
  "e_playAnimationForState e =
     (case e_currentState e of
        E_IDLE \<Rightarrow> (if e_anim e \<noteq> Some Enemy_idle then e_play Enemy_idle e else e)
      | E_RUNNING \<Rightarrow> (if e_anim e \<noteq> Some Enemy_running then e_play Enemy_running e else e)
      | E_JUMPING \<Rightarrow> (if e_anim e \<noteq> Some Enemy_idle then e_play Enemy_idle e else e)
      | E_FALLING \<Rightarrow> (if e_anim e \<noteq> Some Enemy_idle then e_play Enemy_idle e else e)
      | _ \<Rightarrow> e)"

definition e_updateState :: "Enemy \<Rightarrow> Enemy" where
  "e_updateState e =
     (if e_currentState e = E_ATTACKING \<or> e_currentState e = E_HURT then e
      else
        (let previousState = e_currentState e;
             e1 = (if \<not> e_blockedDown e
                   then e\<lparr>e_currentState :=
                            (if e_velocityY e < 0 then E_JUMPING else E_FALLING)\<rparr>
                   else e\<lparr>e_currentState :=
                            (if \<bar>e_velocityX e\<bar> > D 10 then E_RUNNING else E_IDLE)\<rparr>)
         in if e_currentState e1 \<noteq> previousState then e_playAnimationForState e1 else e1))"

definition e_updateFacing :: "Enemy \<Rightarrow> Enemy" where
  "e_updateFacing e =
     (let shouldFlip = (\<not> e_facingRight e)
      in if e_flipX e \<noteq> shouldFlip then e\<lparr>e_flipX := shouldFlip\<rparr> else e)"

definition e_update :: "double \<Rightarrow> EnemyInput \<Rightarrow> Enemy \<Rightarrow> (unit, Enemy) result" where
  "e_update delta i e =
     (let e1 = (if e_invincibilityTimer e > 0 then
                  (let t = e\<lparr>e_invincibilityTimer := e_invincibilityTimer e - delta\<rparr>
                   in if e_invincibilityTimer t \<le> 0 then t\<lparr>e_isInvincible := False\<rparr> else t)
                else e)
      in if e_currentHealth e1 \<le> 0 then Return () e1
         else andThen (e_handleAttack i e1)
                (\<lambda>e2. Return ()
                   (e_updateFacing (e_updateState (e_handleJump i (e_handleMovement i e2))))))"

subsection \<open>Damage\<close>

definition e_triggerHurt :: "Enemy \<Rightarrow> Enemy" where
  "e_triggerHurt e =
     (if e_currentState e = E_HURT then e
      else e_once E_ReturnToIdle
             (e_play Enemy_getting_punched
                (e\<lparr>e_currentState := E_HURT, e_currentAttackType := None\<rparr>)))"

text \<open>
  \<^verbatim>\<open>sprite.play('enemy-getting-punched-stomach')\<close> throws (no texture, no frames): the
  completion listener is never registered.
\<close>

definition e_triggerHurtStomach :: "Enemy \<Rightarrow> (unit, Enemy) result" where
  "e_triggerHurtStomach e =
     (if e_currentState e = E_HURT then Return () e
      else Raise TypeError
             (e_play Enemy_getting_punched_stomach
                (e\<lparr>e_currentState := E_HURT, e_currentAttackType := None\<rparr>)))"

text \<open>
  \<open>attackType\<close> is the optional string argument: \<open>None\<close> is \<^verbatim>\<open>undefined\<close>, and the empty
  string is falsy like \<^verbatim>\<open>undefined\<close>.
\<close>

definition e_takeDamage ::
  "double \<Rightarrow> double \<Rightarrow> string option \<Rightarrow> Enemy \<Rightarrow> (unit, Enemy) result" where
  "e_takeDamage amount attackerX attackType e =
     (if e_isInvincible e \<or> e_currentHealth e \<le> 0 then Return () e
      else
        (let e1 = e\<lparr>e_currentHealth := max 0 (e_currentHealth e - amount)\<rparr>;
             knockbackDirection = (if e_x e1 < attackerX then - 1 else 1 :: double);
             e2 = e1\<lparr>e_velocityX := knockbackDirection * E_KNOCKBACK_FORCE\<rparr>;
             e3 = e2\<lparr>e_isInvincible := True,
                    e_invincibilityTimer := E_INVINCIBILITY_DURATION\<rparr>
         in andThen
              (if attackType = Some ''sidekick'' \<or> attackType = Some ''uppercut''
               then Return () (e_triggerHurt e3)
               else if attackType \<noteq> None \<and> attackType \<noteq> Some []
               then e_triggerHurtStomach e3
               else Return () e3)
              (\<lambda>e4. if e_currentHealth e4 \<le> 0 then
                      Return () (e4\<lparr>e_velocityX := 0, e_velocityY := 0,
                                    e_accelerationX := 0, e_accelerationY := 0\<rparr>)
                    else Return () e4)))"

definition e_isDead :: "Enemy \<Rightarrow> bool" where
  "e_isDead e = (e_currentHealth e \<le> 0)"


definition e_getAttackDamage :: "Enemy \<Rightarrow> double" where
  "e_getAttackDamage e =
     (if e_currentAttackType e = Some E_punch then D 10
      else if e_currentAttackType e = Some E_sidekick then D 15
      else if e_currentAttackType e = Some E_jump_sidekick then D 20
      else 0)"

subsection \<open>Engine events\<close>

definition e_runCallback :: "EnemyCallback \<Rightarrow> Enemy \<Rightarrow> Enemy" where
  "e_runCallback f e =
     (case f of
        E_AttackDone \<Rightarrow>
          e_play Enemy_idle (e\<lparr>e_currentAttackType := None, e_currentState := E_IDLE\<rparr>)
      | E_ReturnToIdle \<Rightarrow> e_play Enemy_idle (e\<lparr>e_currentState := E_IDLE\<rparr>))"

definition e_animationComplete :: "Enemy \<Rightarrow> Enemy" where
  "e_animationComplete e =
     foldl (\<lambda>t f. e_runCallback f t) (e\<lparr>e_listeners := []\<rparr>) (e_listeners e)"

text \<open>
  What can happen to an enemy.  An event that throws leaves the enemy as the throwing
  call left it; \<open>enemyStep\<close> is the enemy after the event either way.
\<close>

datatype EnemyEvent =
  E_Frame double EnemyInput             \<comment> \<open>one frame: the tweens, then \<^verbatim>\<open>Enemy.update()\<close>\<close>
  | E_TakeDamage double double "string option"
  | E_AnimationComplete
  | E_Physics double double double double bool
  | E_Punch double                      \<comment> \<open>\<^verbatim>\<open>punch()\<close> at \<^verbatim>\<open>scene.time.now\<close>\<close>
  | E_Sidekick double
  | E_Jump
  | E_StartMovingLeft
  | E_StartMovingRight
  | E_StopMoving
  | E_MoveLeftBy double
  | E_MoveRightBy double
  | E_SetFacing bool

fun enemyEvent :: "EnemyEvent \<Rightarrow> Enemy \<Rightarrow> (unit, Enemy) result" where
  "enemyEvent (E_Frame delta i) e = andThen (tweensUpdate delta e) (e_update delta i)"
| "enemyEvent (E_TakeDamage amount attackerX attackType) e =
     e_takeDamage amount attackerX attackType e"
| "enemyEvent E_AnimationComplete e = Return () (e_animationComplete e)"
| "enemyEvent (E_Physics x y vx vy down) e =
     Return ()
       (e\<lparr>e_x := x, e_y := y, e_velocityX := vx, e_velocityY := vy, e_blockedDown := down\<rparr>)"
| "enemyEvent (E_Punch now) e = andThen (punch now e) (Return ())"
| "enemyEvent (E_Sidekick now) e = andThen (sidekick now e) (Return ())"
| "enemyEvent E_Jump e = Return () (snd (jump e))"
| "enemyEvent E_StartMovingLeft e = Return () (startMovingLeft e)"
| "enemyEvent E_StartMovingRight e = Return () (startMovingRight e)"
| "enemyEvent E_StopMoving e = Return () (stopMoving e)"
| "enemyEvent (E_MoveLeftBy pixels) e = Return () (moveLeftBy pixels e)"
| "enemyEvent (E_MoveRightBy pixels) e = Return () (moveRightBy pixels e)"
| "enemyEvent (E_SetFacing right) e = Return () (setFacing right e)"

definition enemyStep :: "EnemyEvent \<Rightarrow> Enemy \<Rightarrow> Enemy" where
  "enemyStep ev e = stateOf (enemyEvent ev e)"

definition enemyRun :: "EnemyEvent list \<Rightarrow> Enemy \<Rightarrow> Enemy" where
  "enemyRun evs e = foldl (\<lambda>t ev. enemyStep ev t) e evs"

section \<open>Enemy AI controller (EnemyAIController.ts)\<close>

subsection \<open>Configuration\<close>

definition IDLE_TO_CHASE_DISTANCE :: double where "IDLE_TO_CHASE_DISTANCE = D 2000"
definition CHASE_TO_IDLE_DISTANCE :: double where "CHASE_TO_IDLE_DISTANCE = D 600"
definition ATTACK_DISTANCE :: double where "ATTACK_DISTANCE = D 120"
definition DISTANCE_VARIANCE :: double where "DISTANCE_VARIANCE = D 30"
definition ATTACK_COOLDOWN :: double where "ATTACK_COOLDOWN = D 800"
definition RETREAT_DURATION :: double where "RETREAT_DURATION = D 500"
definition ATTACK_PAUSE_CHANCE :: double where "ATTACK_PAUSE_CHANCE = D 0.3"
definition ATTACK_PAUSE_DURATION :: double where "ATTACK_PAUSE_DURATION = D 200"
definition RETREAT_CHANCE :: double where "RETREAT_CHANCE = D 0.25"
definition JUMP_WHILE_CHASING_CHANCE :: double where "JUMP_WHILE_CHASING_CHANCE = D 0.02"
definition LOW_HEALTH_THRESHOLD :: double where "LOW_HEALTH_THRESHOLD = D 0.3"
definition LOW_HEALTH_RETREAT_CHANCE :: double where "LOW_HEALTH_RETREAT_CHANCE = D 0.4"

subsection \<open>Data\<close>

datatype AIState = AI_IDLE | AI_CHASE | AI_ATTACK | AI_RETREAT

text \<open>The two closures \<^verbatim>\<open>performAttack\<close> hands to \<^verbatim>\<open>setTimeout\<close>.\<close>

datatype AITimeout =
  RetreatAfterAttack   \<comment> \<open>\<^verbatim>\<open>() => { if (currentState === ATTACK) transitionTo(RETREAT) }\<close>, 200 ms\<close>
  | ChaseAfterAttack   \<comment> \<open>\<^verbatim>\<open>() => { if (currentState === ATTACK) transitionTo(CHASE) }\<close>, 100 ms\<close>

text \<open>
  \<open>ai_timeouts\<close> holds the pending \<^verbatim>\<open>setTimeout\<close> callbacks with the host time, in
  milliseconds, left until each fires.
\<close>

record AIController =
  ai_currentState :: AIState
  ai_stateTimer :: double
  ai_attackCooldown :: double
  ai_lastAttackTime :: double
  ai_attackPauseTimer :: double
  ai_isWaitingToAttack :: bool
  ai_timeouts :: "(real \<times> AITimeout) list"

text \<open>
  What one call of \<^verbatim>\<open>EnemyAIController.update\<close> reads from outside: the successive
  values of \<^verbatim>\<open>Math.random()\<close>, one field per call site, and \<^verbatim>\<open>scene.time.now\<close>.
\<close>

record AIEnv =
  rnd_variance :: double
  rnd_jump :: double
  rnd_pause :: double
  rnd_pauseLength :: double
  rnd_attack :: double
  rnd_retreat :: double
  env_now :: double

definition newAIController :: AIController where
  "newAIController = \<lparr>
     ai_currentState = AI_IDLE, ai_stateTimer = 0,
     ai_attackCooldown = ATTACK_COOLDOWN, ai_lastAttackTime = 0,
     ai_attackPauseTimer = 0, ai_isWaitingToAttack = False, ai_timeouts = [] \<rparr>"

subsection \<open>The state machine\<close>

text \<open>The controller and the enemy it drives are threaded together as a pair.\<close>

definition transitionTo :: "AIState \<Rightarrow> AIController \<times> Enemy \<Rightarrow> AIController \<times> Enemy" where
  "transitionTo newState c =
     ((fst c)\<lparr>ai_isWaitingToAttack := False,
              ai_currentState := newState,
              ai_stateTimer := 0\<rparr>,
      stopMoving (snd c))"

text \<open>\<^verbatim>\<open>(Math.random() - 0.5) * 2 * AI_CONFIG.DISTANCE_VARIANCE\<close>\<close>

definition variance :: "double \<Rightarrow> double" where
  "variance r = (r - D 0.5) * D 2 * DISTANCE_VARIANCE"

definition checkStateTransitions ::
  "AIEnv \<Rightarrow> double \<Rightarrow> AIController \<times> Enemy \<Rightarrow> AIController \<times> Enemy" where
  "checkStateTransitions env distance c =
     (let v = variance (rnd_variance env)
      in case ai_currentState (fst c) of
           AI_IDLE \<Rightarrow>
             if distance < IDLE_TO_CHASE_DISTANCE + v then transitionTo AI_CHASE c else c
         | AI_CHASE \<Rightarrow>
             if distance < ATTACK_DISTANCE + v then transitionTo AI_ATTACK c
             else if distance > CHASE_TO_IDLE_DISTANCE + v then transitionTo AI_IDLE c
             else c
         | AI_ATTACK \<Rightarrow>
             if distance > ATTACK_DISTANCE + D 20 then transitionTo AI_CHASE c else c
         | AI_RETREAT \<Rightarrow>
             if ai_stateTimer (fst c) \<ge> RETREAT_DURATION then transitionTo AI_CHASE c
             else c)"

definition facePlayer :: "double \<Rightarrow> AIController \<times> Enemy \<Rightarrow> AIController \<times> Enemy" where
  "facePlayer playerX c = (fst c, setFacing (playerX > e_x (snd c)) (snd c))"

definition executeIdleBehavior ::
  "double \<Rightarrow> AIController \<times> Enemy \<Rightarrow> AIController \<times> Enemy" where
  "executeIdleBehavior playerX c = facePlayer playerX (fst c, stopMoving (snd c))"

definition executeChaseBehavior ::
  "AIEnv \<Rightarrow> double \<Rightarrow> AIController \<times> Enemy \<Rightarrow> AIController \<times> Enemy" where
  "executeChaseBehavior env playerX c =
     (let e1 = (if playerX < e_x (snd c) then startMovingLeft (snd c)
                else startMovingRight (snd c))
      in if rnd_jump env < JUMP_WHILE_CHASING_CHANCE then (fst c, snd (jump e1))
         else (fst c, e1))"

text \<open>
  \<^verbatim>\<open>getCurrentHealth() / getMaxHealth()\<close>: the maximum is the constant 300, so the
  quotient never divides by zero.  A throwing \<^verbatim>\<open>punch()\<close> or \<^verbatim>\<open>sidekick()\<close> leaves the
  controller as it was.
\<close>

definition performAttack ::
  "AIEnv \<Rightarrow> AIController \<times> Enemy \<Rightarrow> (unit, AIController \<times> Enemy) result" where
  "performAttack env c =
     (case (if rnd_attack env < D 0.5 then punch (env_now env) (snd c)
            else sidekick (env_now env) (snd c)) of
        Raise err e1 \<Rightarrow> Raise err (fst c, e1)
      | Return attackSuccess e1 \<Rightarrow>
          if attackSuccess then
            (let ai1 = (fst c)\<lparr>ai_lastAttackTime := 0\<rparr>;
                 isLowHealth = (e_currentHealth e1 / e_maxHealth e1 < LOW_HEALTH_THRESHOLD);
                 retreatChance =
                   (if isLowHealth then LOW_HEALTH_RETREAT_CHANCE else RETREAT_CHANCE)
             in if rnd_retreat env < retreatChance
                then Return ()
                       (ai1\<lparr>ai_timeouts := ai_timeouts ai1 @ [(200, RetreatAfterAttack)]\<rparr>, e1)
                else Return ()
                       (ai1\<lparr>ai_timeouts := ai_timeouts ai1 @ [(100, ChaseAfterAttack)]\<rparr>, e1))
          else Return () (fst c, e1))"

definition executeAttackBehavior ::
  "AIEnv \<Rightarrow> double \<Rightarrow> AIController \<times> Enemy \<Rightarrow> (unit, AIController \<times> Enemy) result" where
  "executeAttackBehavior env playerX c =
     (let c1 = facePlayer playerX c;
          c2 = (fst c1, stopMoving (snd c1))
      in if ai_isWaitingToAttack (fst c2) then
           (if ai_attackPauseTimer (fst c2) \<le> 0
            then performAttack env ((fst c2)\<lparr>ai_isWaitingToAttack := False\<rparr>, snd c2)
            else Return () c2)
         else if ai_lastAttackTime (fst c2) \<ge> ai_attackCooldown (fst c2)
                 \<and> canAttack (snd c2) then
           (if rnd_pause env < ATTACK_PAUSE_CHANCE
            then Return ()
                   ((fst c2)\<lparr>ai_isWaitingToAttack := True,
                              ai_attackPauseTimer :=
                                ATTACK_PAUSE_DURATION * (D 0.5 + rnd_pauseLength env)\<rparr>,
                    snd c2)
            else performAttack env c2)
         else Return () c2)"

definition executeRetreatBehavior ::
  "double \<Rightarrow> AIController \<times> Enemy \<Rightarrow> AIController \<times> Enemy" where
  "executeRetreatBehavior playerX c =
     facePlayer playerX
       (fst c, if playerX < e_x (snd c) then startMovingRight (snd c)
               else startMovingLeft (snd c))"

definition executeStateBehavior ::
  "AIEnv \<Rightarrow> double \<Rightarrow> AIController \<times> Enemy \<Rightarrow> (unit, AIController \<times> Enemy) result" where
  "executeStateBehavior env playerX c =
     (case ai_currentState (fst c) of
        AI_IDLE \<Rightarrow> Return () (executeIdleBehavior playerX c)
      | AI_CHASE \<Rightarrow> Return () (executeChaseBehavior env playerX c)
      | AI_ATTACK \<Rightarrow> executeAttackBehavior env playerX c
      | AI_RETREAT \<Rightarrow> Return () (executeRetreatBehavior playerX c))"

definition ai_update ::
  "double \<Rightarrow> AIEnv \<Rightarrow> Player \<Rightarrow> AIController \<times> Enemy
     \<Rightarrow> (unit, AIController \<times> Enemy) result" where
  "ai_update delta env player c =
     (if e_isDead (snd c) then Return () (fst c, stopMoving (snd c))
      else if isDead player
      then Return () ((fst c)\<lparr>ai_currentState := AI_IDLE\<rparr>, stopMoving (snd c))
      else
        (let ai1 = (fst c)\<lparr>ai_stateTimer := ai_stateTimer (fst c) + delta,
                          ai_lastAttackTime := ai_lastAttackTime (fst c) + delta\<rparr>;
             ai2 = (if ai_attackPauseTimer ai1 > 0
                    then ai1\<lparr>ai_attackPauseTimer := ai_attackPauseTimer ai1 - delta\<rparr>
                    else ai1);
             playerX = p_x player;
             enemyX = e_x (snd c);
             distance = \<bar>playerX - enemyX\<bar>
         in executeStateBehavior env playerX
              (checkStateTransitions env distance (ai2, snd c))))"

definition forceState :: "AIState \<Rightarrow> AIController \<times> Enemy \<Rightarrow> AIController \<times> Enemy" where
  "forceState state c = transitionTo state c"

definition setAttackCooldown :: "double \<Rightarrow> AIController \<Rightarrow> AIController" where
  "setAttackCooldown cooldownMs ai = ai\<lparr>ai_attackCooldown := cooldownMs\<rparr>"

text \<open>A \<^verbatim>\<open>setTimeout\<close> callback of \<^verbatim>\<open>performAttack\<close> fires.\<close>

definition runTimeout :: "AITimeout \<Rightarrow> AIController \<times> Enemy \<Rightarrow> AIController \<times> Enemy" where
  "runTimeout f c =
     (case f of
        RetreatAfterAttack \<Rightarrow>
          if ai_currentState (fst c) = AI_ATTACK then transitionTo AI_RETREAT c else c
      | ChaseAfterAttack \<Rightarrow>
          if ai_currentState (fst c) = AI_ATTACK then transitionTo AI_CHASE c else c)"

text \<open>The host's timers advance by \<open>ms\<close> milliseconds.\<close>

definition timersUpdate :: "real \<Rightarrow> AIController \<times> Enemy \<Rightarrow> AIController \<times> Enemy" where
  "timersUpdate ms c =
     (let remaining = map (\<lambda>(r, f). (r - ms, f)) (ai_timeouts (fst c))
      in foldl (\<lambda>t (r, f). runTimeout f t)
           ((fst c)\<lparr>ai_timeouts := filter (\<lambda>(r, f). \<not> r \<le> 0) remaining\<rparr>, snd c)
           (filter (\<lambda>(r, f). r \<le> 0) remaining))"

section \<open>Hit resolution (GameScene.ts)\<close>

record Rectangle =
  r_x :: double
  r_y :: double
  r_width :: double
  r_height :: double

text \<open>
  The animation frame a sprite currently shows (\<^verbatim>\<open>sprite.anims.currentFrame\<close>) is the
  engine's: its index in the animation and the name of its texture frame.
\<close>

record AnimFrame =
  f_index :: int
  f_name :: string

definition hitboxAt ::
  "double \<Rightarrow> double \<Rightarrow> double \<Rightarrow> double \<Rightarrow> double \<Rightarrow> double \<Rightarrow> Rectangle" where
  "hitboxAt spriteX spriteY hitboxWidth hitboxHeight offsetX offsetY =
     \<lparr> r_x = spriteX + offsetX - hitboxWidth / D 2,
       r_y = spriteY + offsetY - hitboxHeight / D 2,
       r_width = hitboxWidth, r_height = hitboxHeight \<rparr>"


definition e_getAttackHitbox :: "AnimFrame option \<Rightarrow> Enemy \<Rightarrow> Rectangle option" where
  "e_getAttackHitbox currentFrame e =
     (if e_currentState e \<noteq> E_ATTACKING \<or> e_currentAttackType e = None then None
      else case e_anim e of
        None \<Rightarrow> None
      | Some key \<Rightarrow>
         (case currentFrame of
            None \<Rightarrow> None
          | Some fr \<Rightarrow>
              if key = Enemy_punch \<and> f_name fr = ''punch_extend''
              then Some (hitboxAt (e_x e) (e_y e) (D 100) (D 60)
                           (if e_facingRight e then D 70 else - D 70) (- D 30))
              else if key = Enemy_sidekick
                      \<and> (f_name fr = ''kick_extend'' \<or> f_name fr = ''kick_follow'')
              then Some (hitboxAt (e_x e) (e_y e) (D 120) (D 80)
                           (if e_facingRight e then D 90 else - D 90) (- D 40))
              else if key = Enemy_jump_sidekick \<and> f_name fr = ''jump_kick_extend''
              then Some (hitboxAt (e_x e) (e_y e) (D 140) (D 100)
                           (if e_facingRight e then D 100 else - D 100) (- D 20))
              else None))"

text \<open>
  The overlap test both checks share: the hitbox against the defender's bounds, which
  are \<^verbatim>\<open>sprite.x \<plusminus> body.width / 2\<close> and \<^verbatim>\<open>sprite.y \<plusminus> body.height / 2\<close>.
\<close>

definition overlapsBounds ::
  "Rectangle \<Rightarrow> double \<Rightarrow> double \<Rightarrow> double \<Rightarrow> double \<Rightarrow> bool" where
  "overlapsBounds attackHitbox x y bodyWidth bodyHeight =
     (let left = x - bodyWidth / D 2;
          right = x + bodyWidth / D 2;
          top = y - bodyHeight / D 2;
          bottom = y + bodyHeight / D 2;
          hitboxRight = r_x attackHitbox + r_width attackHitbox;
          hitboxBottom = r_y attackHitbox + r_height attackHitbox
      in r_x attackHitbox < right \<and> hitboxRight > left
         \<and> r_y attackHitbox < bottom \<and> hitboxBottom > top)"




text \<open>The body of the \<^verbatim>\<open>forEach\<close> of \<^verbatim>\<open>checkEnemyAttacks\<close>, for one enemy and its frame.\<close>

definition enemyHitsPlayer :: "AnimFrame option \<times> Enemy \<Rightarrow> Player \<Rightarrow> Player" where
  "enemyHitsPlayer fe player =
     (let enemy = snd fe
      in if e_isDead enemy then player
         else case e_getAttackHitbox (fst fe) enemy of
           None \<Rightarrow> player
         | Some attackHitbox \<Rightarrow>
             if overlapsBounds attackHitbox (p_x player) (p_y player)
                  (p_bodyWidth player) (p_bodyHeight player)
             then takeDamage (e_getAttackDamage enemy) (e_x enemy) player
             else player)"

definition checkEnemyAttacks :: "(AnimFrame option \<times> Enemy) list \<Rightarrow> Player \<Rightarrow> Player" where
  "checkEnemyAttacks enemies player =
     (if isDead player \<or> getIsInvincible player then player
      else foldl (\<lambda>p fe. enemyHitsPlayer fe p) player enemies)"

definition gs_isAnyEnemyShowingWarning :: "Enemy list \<Rightarrow> bool" where
  "gs_isAnyEnemyShowingWarning enemies =
     list_ex (\<lambda>enemy. \<not> e_isDead enemy \<and> isShowingWarning enemy) enemies"

text \<open>\<open>minTime\<close> starts at \<^verbatim>\<open>Infinity\<close>, here \<open>None\<close>.\<close>

definition gs_getTimeUntilEnemyAttack :: "double \<Rightarrow> Enemy list \<Rightarrow> double" where
  "gs_getTimeUntilEnemyAttack now enemies =
     (let minTime =
            foldl (\<lambda>m enemy.
                     if \<not> e_isDead enemy \<and> isShowingWarning enemy then
                       (let timeUntil = getTimeUntilAttack now enemy
                        in case m of
                             None \<Rightarrow> Some timeUntil
                           | Some t \<Rightarrow> if timeUntil < t then Some timeUntil else m)
                     else m)
              None enemies
      in case minTime of None \<Rightarrow> 0 | Some t \<Rightarrow> t)"

section \<open>Event predicates used in the statements\<close>

text \<open>
  The damage an attack deals is never negative (\<^verbatim>\<open>getAttackDamage\<close> returns 0, 10, 15 or
  20); an event list respects that when every damage event carries such an amount.
\<close>

fun nonNegativeDamage :: "PlayerEvent \<Rightarrow> bool" where
  "nonNegativeDamage (TakeDamage amount attackerX) = (0 \<le> amount)"
| "nonNegativeDamage ev = True"

fun e_nonNegativeDamage :: "EnemyEvent \<Rightarrow> bool" where
  "e_nonNegativeDamage (E_TakeDamage amount attackerX attackType) = (0 \<le> amount)"
| "e_nonNegativeDamage ev = True"

fun isTakeDamage :: "PlayerEvent \<Rightarrow> bool" where
  "isTakeDamage (TakeDamage amount attackerX) = True"
| "isTakeDamage ev = False"

fun e_isTakeDamage :: "EnemyEvent \<Rightarrow> bool" where
  "e_isTakeDamage (E_TakeDamage amount attackerX attackType) = True"
| "e_isTakeDamage ev = False"

section \<open>Inputs for the examples\<close>

text \<open>No key is down, the scene callbacks are installed and report no warning.\<close>

definition idleInput :: Input where
  "idleInput = \<lparr>
     isMovingLeft = False, isMovingRight = False, isJumpPressed = False,
     isPunchPressed = False, isUppercutPressed = False, isDebugHurtPressed = False,
     isDebugHurtStomachPressed = False, isDodgePressed = False,
     isMatrixDodgePressed = False, isCounterDodgePressed = False,
     isAnyEnemyShowingWarning = Some False, getTimeUntilEnemyAttack = Some 0,
     random = 0 \<rparr>"

text \<open>No enemy test key is down; the scene clock reads the given time.\<close>

definition e_idleInput :: "double \<Rightarrow> EnemyInput" where
  "e_idleInput now = \<lparr>
     isEnemyMovingLeft = False, isEnemyMovingRight = False, isEnemyJumpPressed = False,
     isEnemyPunchPressed = False, isEnemySidekickPressed = False, timeNow = now \<rparr>"

section \<open>The transition table of the specification\<close>

text \<open>
  The table of the specification, row by row: the state the AI is in after one check,
  from the state it was in, the variance drawn, the distance to the player and the
  state timer.  The sums are floating-point sums, as every number of the program is.
\<close>

definition spec_table_nextState :: "double \<Rightarrow> double \<Rightarrow> double \<Rightarrow> AIState \<Rightarrow> AIState" where
  "spec_table_nextState v distance stateTimer from =
     (case from of
        AI_IDLE \<Rightarrow> if distance < D 2000 + v then AI_CHASE else AI_IDLE
      | AI_CHASE \<Rightarrow>
          if distance < D 120 + v then AI_ATTACK
          else if distance > D 600 + v then AI_IDLE else AI_CHASE
      | AI_ATTACK \<Rightarrow> if distance > D 140 then AI_CHASE else AI_ATTACK
      | AI_RETREAT \<Rightarrow> if stateTimer \<ge> D 500 then AI_CHASE else AI_RETREAT)"

section \<open>Configuration constants, unfolded together\<close>

lemmas player_config =
  P_ACCELERATION_def P_JUMP_VELOCITY_def P_MAX_JUMPS_def P_JUMP_BUFFER_TIME_def
  P_MAX_HEALTH_def P_INVINCIBILITY_DURATION_def P_KNOCKBACK_FORCE_def
  COMBO_WINDOW_def COMBO_MIN_DELAY_def DAMAGE_PUNCH_def DAMAGE_UPPERCUT_def
  DAMAGE_AERIAL_PUNCH_def

lemmas enemy_config =
  E_MOVE_SPEED_def E_ACCELERATION_def E_JUMP_VELOCITY_def E_MAX_HEALTH_def
  E_INVINCIBILITY_DURATION_def E_KNOCKBACK_FORCE_def ATTACK_WARNING_DURATION_def

lemmas ai_config =
  IDLE_TO_CHASE_DISTANCE_def CHASE_TO_IDLE_DISTANCE_def ATTACK_DISTANCE_def
  DISTANCE_VARIANCE_def ATTACK_COOLDOWN_def RETREAT_DURATION_def ATTACK_PAUSE_CHANCE_def
  ATTACK_PAUSE_DURATION_def RETREAT_CHANCE_def JUMP_WHILE_CHASING_CHANCE_def
  LOW_HEALTH_THRESHOLD_def LOW_HEALTH_RETREAT_CHANCE_def

section \<open>Calls that return and calls that throw\<close>

lemma andThen_Return [simp]: "andThen (Return v s) f = f s"
  by (simp add: andThen_def)

lemma andThen_Raise [simp]: "andThen (Raise err s) f = Raise err s"
  by (simp add: andThen_def)

lemma stateOf_andThen_Return [simp]: "stateOf (andThen r (Return v)) = stateOf r"
  by (cases r) simp_all

lemma raised_andThen_Return [simp]: "raised (andThen r (Return v)) = raised r"
  by (cases r) simp_all

section \<open>Health is written by takeDamage only\<close>

lemmas player_prims = play_def once_def

lemma health_triggerHurt [simp]:
  "p_currentHealth (triggerHurt s) = p_currentHealth s"
  "p_maxHealth (triggerHurt s) = p_maxHealth s"
  "p_currentHealth (triggerHurtStomach s) = p_currentHealth s"
  "p_maxHealth (triggerHurtStomach s) = p_maxHealth s"
  by (simp_all add: triggerHurt_def triggerHurtStomach_def player_prims)

lemma health_perform [simp]:
  "p_currentHealth (performDodge s) = p_currentHealth s"
  "p_maxHealth (performDodge s) = p_maxHealth s"
  "p_currentHealth (performMatrixDodge s) = p_currentHealth s"
  "p_maxHealth (performMatrixDodge s) = p_maxHealth s"
  "p_currentHealth (performCounterDodge b d i s) = p_currentHealth s"
  "p_maxHealth (performCounterDodge b d i s) = p_maxHealth s"
  "p_currentHealth (performPunch s) = p_currentHealth s"
  "p_maxHealth (performPunch s) = p_maxHealth s"
  "p_currentHealth (performUppercut s) = p_currentHealth s"
  "p_maxHealth (performUppercut s) = p_maxHealth s"
  "p_currentHealth (performAerialPunch s) = p_currentHealth s"
  "p_maxHealth (performAerialPunch s) = p_maxHealth s"
  by (simp_all add: performDodge_def performMatrixDodge_def performCounterDodge_def
      performPunch_def performUppercut_def performAerialPunch_def player_prims)

lemma health_handlers [simp]:
  "p_currentHealth (updateTimers delta s) = p_currentHealth s"
  "p_maxHealth (updateTimers delta s) = p_maxHealth s"
  "p_currentHealth (handleDebugHurt i s) = p_currentHealth s"
  "p_maxHealth (handleDebugHurt i s) = p_maxHealth s"
  "p_currentHealth (handleCounterDodge i s) = p_currentHealth s"
  "p_maxHealth (handleCounterDodge i s) = p_maxHealth s"
  "p_currentHealth (handleDodge i s) = p_currentHealth s"
  "p_maxHealth (handleDodge i s) = p_maxHealth s"
  "p_currentHealth (handleMatrixDodge i s) = p_currentHealth s"
  "p_maxHealth (handleMatrixDodge i s) = p_maxHealth s"
  "p_currentHealth (handleAttack i s) = p_currentHealth s"
  "p_maxHealth (handleAttack i s) = p_maxHealth s"
  "p_currentHealth (handleMovement i s) = p_currentHealth s"
  "p_maxHealth (handleMovement i s) = p_maxHealth s"
  "p_currentHealth (handleJump delta i s) = p_currentHealth s"
  "p_maxHealth (handleJump delta i s) = p_maxHealth s"
  "p_currentHealth (updateState s) = p_currentHealth s"
  "p_maxHealth (updateState s) = p_maxHealth s"
  "p_currentHealth (updateFacing s) = p_currentHealth s"
  "p_maxHealth (updateFacing s) = p_maxHealth s"
  by (simp_all add: updateTimers_def handleDebugHurt_def handleCounterDodge_def
      queueCounterDodge_def handleDodge_def handleMatrixDodge_def handleAttack_def
      handleMovement_def handleJump_def updateState_def playAnimationForState_def
      updateFacing_def player_prims Let_def split: option.splits PlayerState.splits)

lemma health_update [simp]:
  "p_currentHealth (update delta i s) = p_currentHealth s"
  "p_maxHealth (update delta i s) = p_maxHealth s"
  by (simp_all add: update_def)

lemma health_runCallback [simp]:
  "p_currentHealth (runCallback f s) = p_currentHealth s"
  "p_maxHealth (runCallback f s) = p_maxHealth s"
  by (simp_all add: runCallback_def onAttackComplete_def player_prims Let_def
      split: PlayerCallback.splits option.splits PlayerAttack.splits)

lemma health_callbacks:
  "p_currentHealth (foldl (\<lambda>t f. runCallback f t) s fs) = p_currentHealth s
   \<and> p_maxHealth (foldl (\<lambda>t f. runCallback f t) s fs) = p_maxHealth s"
  by (induction fs arbitrary: s) simp_all

lemma health_animationComplete [simp]:
  "p_currentHealth (animationComplete s) = p_currentHealth s"
  "p_maxHealth (animationComplete s) = p_maxHealth s"
  by (simp_all add: animationComplete_def health_callbacks)

lemma health_fired:
  "p_currentHealth (foldl (\<lambda>t ev. performCounterDodge True 0 i t) s evs) = p_currentHealth s
   \<and> p_maxHealth (foldl (\<lambda>t ev. performCounterDodge True 0 i t) s evs) = p_maxHealth s"
  by (induction evs arbitrary: s) simp_all

lemma health_clockUpdate [simp]:
  "p_currentHealth (clockUpdate delta i s) = p_currentHealth s"
  "p_maxHealth (clockUpdate delta i s) = p_maxHealth s"
  by (simp_all add: clockUpdate_def Let_def health_fired)

lemma maxHealth_takeDamage [simp]:
  "p_maxHealth (takeDamage amount attackerX s) = p_maxHealth s"
  by (simp add: takeDamage_def Let_def)

lemma health_takeDamage:
  "p_currentHealth (takeDamage amount attackerX s) =
     (if p_isInvincible s \<or> p_currentHealth s \<le> 0 then p_currentHealth s
      else max 0 (p_currentHealth s - amount))"
  by (simp add: takeDamage_def Let_def)

lemmas enemy_prims = e_play_def e_once_def

lemma e_health_perform [simp]:
  "e_currentHealth (e_performPunch e) = e_currentHealth e"
  "e_maxHealth (e_performPunch e) = e_maxHealth e"
  "e_currentHealth (stateOf (e_performSidekick e)) = e_currentHealth e"
  "e_maxHealth (stateOf (e_performSidekick e)) = e_maxHealth e"
  "e_currentHealth (e_triggerHurt e) = e_currentHealth e"
  "e_maxHealth (e_triggerHurt e) = e_maxHealth e"
  "e_currentHealth (stateOf (e_triggerHurtStomach e)) = e_currentHealth e"
  "e_maxHealth (stateOf (e_triggerHurtStomach e)) = e_maxHealth e"
  "e_currentHealth (hideAttackWarning e) = e_currentHealth e"
  "e_maxHealth (hideAttackWarning e) = e_maxHealth e"
  by (simp_all add: e_performPunch_def e_performSidekick_def e_triggerHurt_def
      e_triggerHurtStomach_def hideAttackWarning_def enemy_prims Let_def)

lemma e_health_warning [simp]:
  "e_currentHealth (stateOf (attackCallback a e)) = e_currentHealth e"
  "e_maxHealth (stateOf (attackCallback a e)) = e_maxHealth e"
  "e_currentHealth (stateOf (warningComplete a e)) = e_currentHealth e"
  "e_maxHealth (stateOf (warningComplete a e)) = e_maxHealth e"
  "e_currentHealth (stateOf (showAttackWarning a now e)) = e_currentHealth e"
  "e_maxHealth (stateOf (showAttackWarning a now e)) = e_maxHealth e"
  by (simp_all add: attackCallback_def warningComplete_def showAttackWarning_def
      split: PendingAttack.splits)

lemma e_health_actions [simp]:
  "e_currentHealth (stateOf (tweensUpdate delta e)) = e_currentHealth e"
  "e_maxHealth (stateOf (tweensUpdate delta e)) = e_maxHealth e"
  "e_currentHealth (stateOf (punch now e)) = e_currentHealth e"
  "e_maxHealth (stateOf (punch now e)) = e_maxHealth e"
  "e_currentHealth (stateOf (sidekick now e)) = e_currentHealth e"
  "e_maxHealth (stateOf (sidekick now e)) = e_maxHealth e"
  "e_currentHealth (snd (jump e)) = e_currentHealth e"
  "e_maxHealth (snd (jump e)) = e_maxHealth e"
  "e_currentHealth (startMovingLeft e) = e_currentHealth e"
  "e_maxHealth (startMovingLeft e) = e_maxHealth e"
  "e_currentHealth (startMovingRight e) = e_currentHealth e"
  "e_maxHealth (startMovingRight e) = e_maxHealth e"
  "e_currentHealth (stopMoving e) = e_currentHealth e"
  "e_maxHealth (stopMoving e) = e_maxHealth e"
  "e_currentHealth (moveLeftBy px e) = e_currentHealth e"
  "e_maxHealth (moveLeftBy px e) = e_maxHealth e"
  "e_currentHealth (moveRightBy px e) = e_currentHealth e"
  "e_maxHealth (moveRightBy px e) = e_maxHealth e"
  "e_currentHealth (setFacing b e) = e_currentHealth e"
  "e_maxHealth (setFacing b e) = e_maxHealth e"
  by (simp_all add: tweensUpdate_def punch_def sidekick_def jump_def startMovingLeft_def
      startMovingRight_def stopMoving_def moveLeftBy_def moveRightBy_def setFacing_def
      Let_def split: option.splits TweenPhase.splits)

lemma e_health_handlers [simp]:
  "e_currentHealth (stateOf (e_handleAttack i e)) = e_currentHealth e"
  "e_maxHealth (stateOf (e_handleAttack i e)) = e_maxHealth e"
  "e_currentHealth (e_handleMovement i e) = e_currentHealth e"
  "e_maxHealth (e_handleMovement i e) = e_maxHealth e"
  "e_currentHealth (e_handleJump i e) = e_currentHealth e"
  "e_maxHealth (e_handleJump i e) = e_maxHealth e"
  "e_currentHealth (e_updateState e) = e_currentHealth e"
  "e_maxHealth (e_updateState e) = e_maxHealth e"
  "e_currentHealth (e_updateFacing e) = e_currentHealth e"
  "e_maxHealth (e_updateFacing e) = e_maxHealth e"
  by (simp_all add: e_handleAttack_def e_handleMovement_def e_handleJump_def
      e_updateState_def e_playAnimationForState_def e_updateFacing_def enemy_prims Let_def
      split: option.splits EnemyState.splits)

lemma e_health_andThen:
  assumes "e_currentHealth (stateOf r) = h \<and> e_maxHealth (stateOf r) = m"
    and "\<And>s. e_currentHealth (stateOf (f s)) = e_currentHealth s
              \<and> e_maxHealth (stateOf (f s)) = e_maxHealth s"
  shows "e_currentHealth (stateOf (andThen r f)) = h \<and> e_maxHealth (stateOf (andThen r f)) = m"
  using assms by (cases r) simp_all

lemma e_health_update [simp]:
  "e_currentHealth (stateOf (e_update delta i e)) = e_currentHealth e"
  "e_maxHealth (stateOf (e_update delta i e)) = e_maxHealth e"
proof -
  let ?e1 = "if e_invincibilityTimer e > 0 then
               (let t = e\<lparr>e_invincibilityTimer := e_invincibilityTimer e - delta\<rparr>
                in if e_invincibilityTimer t \<le> 0 then t\<lparr>e_isInvincible := False\<rparr> else t)
             else e"
  have h1: "e_currentHealth ?e1 = e_currentHealth e \<and> e_maxHealth ?e1 = e_maxHealth e"
    by (simp add: Let_def)
  have "e_currentHealth
          (stateOf (andThen (e_handleAttack i ?e1)
             (\<lambda>e2. Return () (e_updateFacing (e_updateState
                       (e_handleJump i (e_handleMovement i e2)))))))
          = e_currentHealth e
        \<and> e_maxHealth
          (stateOf (andThen (e_handleAttack i ?e1)
             (\<lambda>e2. Return () (e_updateFacing (e_updateState
                       (e_handleJump i (e_handleMovement i e2)))))))
          = e_maxHealth e"
    by (rule e_health_andThen) (simp_all add: h1)
  with h1 show "e_currentHealth (stateOf (e_update delta i e)) = e_currentHealth e"
    "e_maxHealth (stateOf (e_update delta i e)) = e_maxHealth e"
    by (simp_all add: e_update_def Let_def)
qed

lemma e_health_runCallback [simp]:
  "e_currentHealth (e_runCallback f e) = e_currentHealth e"
  "e_maxHealth (e_runCallback f e) = e_maxHealth e"
  by (simp_all add: e_runCallback_def enemy_prims split: EnemyCallback.splits)

lemma e_health_callbacks:
  "e_currentHealth (foldl (\<lambda>t f. e_runCallback f t) e fs) = e_currentHealth e
   \<and> e_maxHealth (foldl (\<lambda>t f. e_runCallback f t) e fs) = e_maxHealth e"
  by (induction fs arbitrary: e) simp_all

lemma e_health_animationComplete [simp]:
  "e_currentHealth (e_animationComplete e) = e_currentHealth e"
  "e_maxHealth (e_animationComplete e) = e_maxHealth e"
  by (simp_all add: e_animationComplete_def e_health_callbacks)

lemma e_maxHealth_takeDamage [simp]:
  "e_maxHealth (stateOf (e_takeDamage amount attackerX attackType e)) = e_maxHealth e"
  by (simp add: e_takeDamage_def e_triggerHurtStomach_def enemy_prims Let_def)

lemma e_health_takeDamage:
  "e_currentHealth (stateOf (e_takeDamage amount attackerX attackType e)) =
     (if e_isInvincible e \<or> e_currentHealth e \<le> 0 then e_currentHealth e
      else max 0 (e_currentHealth e - amount))"
  by (simp add: e_takeDamage_def e_triggerHurtStomach_def enemy_prims Let_def)

lemma e_health_frame:
  "e_currentHealth (stateOf (andThen (tweensUpdate delta e) (e_update delta i)))
     = e_currentHealth e
   \<and> e_maxHealth (stateOf (andThen (tweensUpdate delta e) (e_update delta i)))
     = e_maxHealth e"
  by (rule e_health_andThen) simp_all

lemma playerStep_maxHealth [simp]: "p_maxHealth (playerStep ev s) = p_maxHealth s"
  by (cases ev) simp_all

lemma playerStep_health_other:
  "\<not> isTakeDamage ev \<Longrightarrow> p_currentHealth (playerStep ev s) = p_currentHealth s"
  by (cases ev) simp_all


lemma max_zero_minus_le: "0 \<le> a \<Longrightarrow> 0 < h \<Longrightarrow> max 0 (h - a) \<le> (h::double)"
  using minus_le_self [of a h] by (simp add: less_imp_le)

lemma playerStep_health_le:
  "nonNegativeDamage ev \<Longrightarrow> p_currentHealth (playerStep ev s) \<le> p_currentHealth s"
  by (cases ev) (simp_all add: health_takeDamage minus_le_self less_imp_le not_le)

lemma playerStep_health_nonneg:
  "0 \<le> p_currentHealth s \<Longrightarrow> 0 \<le> p_currentHealth (playerStep ev s)"
  by (cases ev) (simp_all add: health_takeDamage)

lemma playerRun_snoc: "playerRun (evs @ [ev]) s = playerStep ev (playerRun evs s)"
  by (simp add: playerRun_def)

lemma playerRun_Cons: "playerRun (ev # evs) s = playerRun evs (playerStep ev s)"
  by (simp add: playerRun_def)

lemma playerRun_Nil: "playerRun [] s = s"
  by (simp add: playerRun_def)

lemma playerRun_maxHealth [simp]: "p_maxHealth (playerRun evs s) = p_maxHealth s"
  by (induction evs arbitrary: s) (simp_all add: playerRun_Nil playerRun_Cons)


lemma playerRun_health_bounds:
  "\<forall>ev\<in>set evs. nonNegativeDamage ev \<Longrightarrow> 0 \<le> p_currentHealth s \<Longrightarrow>
   0 \<le> p_currentHealth (playerRun evs s) \<and> p_currentHealth (playerRun evs s) \<le> p_currentHealth s"
proof (induction evs arbitrary: s)
  case Nil
  then show ?case by (simp add: playerRun_Nil)
next
  case (Cons ev evs)
  have a: "0 \<le> p_currentHealth (playerStep ev s)"
    using Cons.prems(2) by (rule playerStep_health_nonneg)
  have b: "p_currentHealth (playerStep ev s) \<le> p_currentHealth s"
    using Cons.prems(1) by (simp add: playerStep_health_le)
  have "\<forall>ev\<in>set evs. nonNegativeDamage ev" using Cons.prems(1) by simp
  from Cons.IH[OF this a] b show ?case
    by (auto simp add: playerRun_Cons intro: order_trans)
qed

lemma enemyStep_maxHealth [simp]: "e_maxHealth (enemyStep ev e) = e_maxHealth e"
  by (cases ev) (simp_all add: enemyStep_def e_health_frame)

lemma enemyStep_health_other:
  "\<not> e_isTakeDamage ev \<Longrightarrow> e_currentHealth (enemyStep ev e) = e_currentHealth e"
  by (cases ev) (simp_all add: enemyStep_def e_health_frame)


lemma enemyStep_health_le:
  "e_nonNegativeDamage ev \<Longrightarrow> e_currentHealth (enemyStep ev e) \<le> e_currentHealth e"
  by (cases ev)
    (simp_all add: enemyStep_def e_health_frame e_health_takeDamage minus_le_self
       less_imp_le not_le)

lemma enemyStep_health_nonneg:
  "0 \<le> e_currentHealth e \<Longrightarrow> 0 \<le> e_currentHealth (enemyStep ev e)"
  by (cases ev) (simp_all add: enemyStep_def e_health_frame e_health_takeDamage)

lemma enemyRun_snoc: "enemyRun (evs @ [ev]) e = enemyStep ev (enemyRun evs e)"
  by (simp add: enemyRun_def)

lemma enemyRun_Cons: "enemyRun (ev # evs) e = enemyRun evs (enemyStep ev e)"
  by (simp add: enemyRun_def)

lemma enemyRun_Nil: "enemyRun [] e = e"
  by (simp add: enemyRun_def)

lemma enemyRun_maxHealth [simp]: "e_maxHealth (enemyRun evs e) = e_maxHealth e"
  by (induction evs arbitrary: e) (simp_all add: enemyRun_Nil enemyRun_Cons)


lemma enemyRun_health_bounds:
  "\<forall>ev\<in>set evs. e_nonNegativeDamage ev \<Longrightarrow> 0 \<le> e_currentHealth e \<Longrightarrow>
   0 \<le> e_currentHealth (enemyRun evs e) \<and> e_currentHealth (enemyRun evs e) \<le> e_currentHealth e"
proof (induction evs arbitrary: e)
  case Nil
  then show ?case by (simp add: enemyRun_Nil)
next
  case (Cons ev evs)
  have a: "0 \<le> e_currentHealth (enemyStep ev e)"
    using Cons.prems(2) by (rule enemyStep_health_nonneg)
  have b: "e_currentHealth (enemyStep ev e) \<le> e_currentHealth e"
    using Cons.prems(1) by (simp add: enemyStep_health_le)
  have "\<forall>ev\<in>set evs. e_nonNegativeDamage ev" using Cons.prems(1) by simp
  from Cons.IH[OF this a] b show ?case
    by (auto simp add: enemyRun_Cons intro: order_trans)
qed


section \<open>The constructors, with the body sizes computed\<close>




section \<open>The AI's state after a check and after a tick\<close>

lemma transitionTo_state [simp]:
  "ai_currentState (fst (transitionTo newState c)) = newState"
  by (simp add: transitionTo_def)

lemma attack_distance_20: "D 120 + D 20 = D 140"
  by (simp add: double_eval)

lemma checkStateTransitions_state:
  "ai_currentState (fst (checkStateTransitions env distance c))
     = spec_table_nextState (variance (rnd_variance env)) distance (ai_stateTimer (fst c))
         (ai_currentState (fst c))"
  by (simp add: checkStateTransitions_def spec_table_nextState_def ai_config Let_def
      attack_distance_20 split: AIState.splits)

lemma performAttack_state [simp]:
  "ai_currentState (fst (stateOf (performAttack env c))) = ai_currentState (fst c)"
  by (simp add: performAttack_def Let_def split: result.splits)

lemma executeStateBehavior_state:
  "ai_currentState (fst (stateOf (executeStateBehavior env playerX c)))
     = ai_currentState (fst c)"
  by (simp add: executeStateBehavior_def executeIdleBehavior_def executeChaseBehavior_def
      executeAttackBehavior_def executeRetreatBehavior_def facePlayer_def Let_def
      split: AIState.splits)

subsection \<open>The variance drawn\<close>

text \<open>The largest double below 1 is \<open>1 - 2\<^sup>-\<^sup>5\<^sup>3\<close>.\<close>

lemma double_below_one:
  assumes "val a < 1"
  shows "val a \<le> 1 - 1 / 2 ^ 53"
proof (rule ccontr)
  assume "\<not> val a \<le> 1 - 1 / 2 ^ 53"
  then have lo: "1 - 1 / 2 ^ 53 < val a" by simp
  have h: "2 powi (- 1) \<le> val a" using lo by (simp add: power_int_minus)
  have e: "expo (val a) = - 1"
    by (rule expo_eq) (use h assms in simp_all)
  have u: "ulp (val a) = 1 / 2 ^ 53" by (simp add: ulp_def e power_int_minus divide_simps)
  have pos: "\<not> val a < 0" using lo by simp
  have "fl (val a) = val a" by simp
  then have eq: "val a = of_int (rne (val a * 2 ^ 53)) / 2 ^ 53"
    using pos by (simp add: fl_def flp_def u)
  have fl: "\<lfloor>val a * 2 ^ 53\<rfloor> = 2 ^ 53 - 1"
    using lo assms by (simp add: floor_eq_iff field_simps)
  from rne_cases [of "val a * 2 ^ 53"]
  have "rne (val a * 2 ^ 53) = 2 ^ 53 - 1 \<or> rne (val a * 2 ^ 53) = 2 ^ 53"
    unfolding fl by simp
  then show False
  proof
    assume "rne (val a * 2 ^ 53) = 2 ^ 53 - 1"
    with eq have "val a = 1 - 1 / 2 ^ 53" by (simp add: field_simps)
    with lo show False by simp
  next
    assume "rne (val a * 2 ^ 53) = 2 ^ 53"
    with eq have "val a = 1" by simp
    with assms show False by simp
  qed
qed

lemma fl_half: "fl (1 / 2) = 1 / 2"
  by (simp add: fl_eval)

lemma fl_half_pred: "fl (1 - 1 / 2 ^ 53 - 1 / 2) = 1 / 2 - 1 / 2 ^ 53"
  by (simp add: fl_eval)

lemma fl_one_pred: "fl ((1 / 2 - 1 / 2 ^ 53) * 2) = 1 - 1 / 2 ^ 52"
  by (simp add: fl_eval)

lemma fl_thirty_pred: "fl ((1 - 1 / 2 ^ 52) * 30) = 30 - 1 / 2 ^ 47"
  by (simp add: fl_eval)

lemma val_variance:
  "val (variance r) = fl (fl (fl (val r - 1 / 2) * 2) * 30)"
  by (simp add: variance_def ai_config val_times val_minus val_D fl_numeral fl_half)

lemma variance_bounds:
  assumes "0 \<le> r" and "r < 1"
  shows "- 30 \<le> val (variance r) \<and> val (variance r) \<le> 30 - 1 / 2 ^ 47"
proof -
  have r0: "0 \<le> val r" using assms(1) by (simp add: val_nonneg_iff)
  have "val r < 1" using assms(2) by (simp add: double_less val_one)
  then have r1: "val r \<le> 1 - 1 / 2 ^ 53" by (rule double_below_one)
  let ?a = "fl (val r - 1 / 2)"
  let ?b = "fl (?a * 2)"
  have "fl (- (1 / 2)) \<le> ?a" by (rule fl_mono) (use r0 in simp)
  then have a0: "- (1 / 2) \<le> ?a" by (simp only: fl_minus fl_half)
  have "?a \<le> fl (1 - 1 / 2 ^ 53 - 1 / 2)" by (rule fl_mono) (use r1 in simp)
  then have a1: "?a \<le> 1 / 2 - 1 / 2 ^ 53" by (simp only: fl_half_pred)
  have "fl (- 1) \<le> ?b" by (rule fl_mono) (use a0 in simp)
  then have b0: "- 1 \<le> ?b" by (simp only: fl_minus fl_1)
  have "?b \<le> fl ((1 / 2 - 1 / 2 ^ 53) * 2)" by (rule fl_mono) (use a1 in simp)
  then have b1: "?b \<le> 1 - 1 / 2 ^ 52" by (simp only: fl_one_pred)
  have "fl (- 30) \<le> fl (?b * 30)" by (rule fl_mono) (use b0 in simp)
  then have c0: "- 30 \<le> fl (?b * 30)" by (simp add: fl_neg_numeral)
  have "fl (?b * 30) \<le> fl ((1 - 1 / 2 ^ 52) * 30)" by (rule fl_mono) (use b1 in simp)
  then have c1: "fl (?b * 30) \<le> 30 - 1 / 2 ^ 47" by (simp only: fl_thirty_pred)
  from c0 c1 show ?thesis by (simp only: val_variance)
qed

subsection \<open>Sums that round to a threshold\<close>

lemma ulp_64: "64 \<le> y \<Longrightarrow> y < 128 \<Longrightarrow> ulp y = 1 / 2 ^ 46"
proof -
  assume a: "64 \<le> y" "y < 128"
  have "expo y = 6"
    by (rule expo_eq) (use a in simp_all)
  then show ?thesis by (simp add: ulp_def power_int_minus divide_simps)
qed

lemma fl_tie_100: "fl (100 + 1 / 2 ^ 47) = 100"
  by (simp add: fl_eval)

lemma fl_128: "fl 128 = 128"
  by (simp add: fl_numeral)

text \<open>
  The doubles next to 100 are \<open>2\<^sup>-\<^sup>4\<^sup>6\<close> apart, and the sum halfway between 100 and the
  next one is rounded to 100, whose mantissa is even.
\<close>

lemma above_100: "100 < fl y \<longleftrightarrow> 100 + 1 / 2 ^ 47 < y"
proof
  assume "100 < fl y"
  show "100 + 1 / 2 ^ 47 < y"
  proof (rule ccontr)
    assume "\<not> 100 + 1 / 2 ^ 47 < y"
    then have "y \<le> 100 + 1 / 2 ^ 47" by simp
    then have "fl y \<le> fl (100 + 1 / 2 ^ 47)" by (rule fl_mono)
    also have "\<dots> = 100" by (rule fl_tie_100)
    finally have "fl y \<le> 100" .
    with \<open>100 < fl y\<close> show False by simp
  qed
next
  assume a: "100 + 1 / 2 ^ 47 < y"
  show "100 < fl y"
  proof (cases "y < 128")
    case True
    have y64: "64 \<le> y" using a by simp
    have u: "ulp \<bar>y\<bar> = 1 / 2 ^ 46" using y64 True by (simp add: ulp_64)
    have "\<bar>fl y - y\<bar> \<le> ulp \<bar>y\<bar> / 2" by (rule fl_err)
    then have "\<bar>fl y - y\<bar> \<le> 1 / 2 ^ 47" unfolding u by simp
    then have "y - 1 / 2 ^ 47 \<le> fl y" by linarith
    with a show ?thesis by simp
  next
    case False
    then have "128 \<le> y" by simp
    then have "fl 128 \<le> fl y" by (rule fl_mono)
    then show ?thesis by (simp add: fl_128)
  qed
qed

lemma chase_at_100:
  "D 100 < D 120 + v \<longleftrightarrow> - 20 + 1 / 2 ^ 47 < val v"
proof -
  have "D 100 < D 120 + v \<longleftrightarrow> 100 < fl (120 + val v)"
    by (simp add: double_less val_plus)
  also have "\<dots> \<longleftrightarrow> 100 + 1 / 2 ^ 47 < 120 + val v" by (rule above_100)
  also have "\<dots> \<longleftrightarrow> - 20 + 1 / 2 ^ 47 < val v" by linarith
  finally show ?thesis .
qed

lemma idle_at_2500:
  assumes "val v \<le> 30"
  shows "\<not> D 2500 < D 2000 + v"
proof -
  have "fl (2000 + val v) \<le> fl 2030" by (rule fl_mono) (use assms in simp)
  then have "fl (2000 + val v) \<le> 2030" by (simp add: fl_numeral)
  then show ?thesis by (simp add: double_less val_plus)
qed

lemma attack_below_90:
  assumes "- 30 \<le> val v" and "distance < D 90"
  shows "distance < D 120 + v"
proof -
  have "fl 90 \<le> fl (120 + val v)" by (rule fl_mono) (use assms(1) in simp)
  then have "90 \<le> fl (120 + val v)" by (simp add: fl_numeral)
  moreover have "val distance < 90" using assms(2) by (simp add: double_less)
  ultimately show ?thesis by (simp add: double_less val_plus)
qed

section \<open>The claims\<close>

subsection \<open>C1: death is permanent\<close>




subsection \<open>C3: damage on an invincible or dead combatant\<close>

text \<open>
  Claim C3.  For the Player and for the Enemy, \<^verbatim>\<open>takeDamage\<close> called while
  \<^verbatim>\<open>isInvincible\<close> is true or while health is at most 0 returns the combatant exactly
  as it was, for every amount, every \<^verbatim>\<open>attackerX\<close> and every attack type: health,
  velocity, invincibility flag and timer, state, facing and every other field are
  unchanged.  The player's function is total and the enemy's call returns, so no error
  is raised.
\<close>

theorem C3_takeDamage_noop:
  "(p_isInvincible s \<or> p_currentHealth s \<le> 0 \<longrightarrow> takeDamage amount attackerX s = s) \<and>
   (e_isInvincible e \<or> e_currentHealth e \<le> 0 \<longrightarrow>
      e_takeDamage amount' attackerX' attackType e = Return () e)"
  by (simp add: takeDamage_def e_takeDamage_def)

theorem C3_takeDamage_noop_witness:
  "takeDamage (D 10) (D 5) ((newPlayer 0 0)\<lparr>p_isInvincible := True\<rparr>)
     = (newPlayer 0 0)\<lparr>p_isInvincible := True\<rparr> \<and>
   e_takeDamage (D 20) (D 5) (Some ''uppercut'') ((newEnemy (D 9) 0)\<lparr>e_currentHealth := 0\<rparr>)
     = Return () ((newEnemy (D 9) 0)\<lparr>e_currentHealth := 0\<rparr>)"
  using C3_takeDamage_noop [of "(newPlayer 0 0)\<lparr>p_isInvincible := True\<rparr>" "D 10" "D 5"
      "(newEnemy (D 9) 0)\<lparr>e_currentHealth := 0\<rparr>" "D 20" "D 5" "Some ''uppercut''"]
  by simp

subsection \<open>C6: the AI's transition table\<close>

text \<open>
  Claim C6, as stated, fails in its last scenario.  With \<^verbatim>\<open>Math.random()\<close> returning
  0.125 the variance is -22.5, and an enemy in Chase at distance 100 stays in Chase,
  because 100 is not below 120 - 22.5 = 97.5.
\<close>

theorem C6_counterexample:
  "variance (D 0.125) = - D 22.5 \<and>
   ai_currentState (fst (checkStateTransitions
       \<lparr>rnd_variance = D 0.125, rnd_jump = D 0.5, rnd_pause = D 0.5, rnd_pauseLength = D 0.5,
        rnd_attack = D 0.5, rnd_retreat = D 0.5, env_now = 0\<rparr>
       (D 100) (newAIController\<lparr>ai_currentState := AI_CHASE\<rparr>, newEnemy (D 200) 0)))
     = AI_CHASE"
  by (simp add: variance_def checkStateTransitions_def newAIController_def ai_config
      double_eval fl_eval)

text \<open>
  Claim C6, amended.  \<^verbatim>\<open>Math.random()\<close> lies in \<open>[0, 1)\<close>, so the variance lies in
  \<open>[-30, 30)\<close>.  One check moves the AI exactly as the table says: Idle to Chase when
  distance < 2000 + variance; Chase to Attack when distance < 120 + variance, else Chase
  to Idle when distance > 600 + variance; Attack to Chase when distance > 140; Retreat to
  Chase when the state timer is at least 500 ms; otherwise the state stays.  The sums are
  the floating-point sums the code computes.  A whole AI tick with enemy and player
  alive ends, also when the attack it starts throws, in the state the table gives for
  the distance between them and the state timer advanced by the tick's delta.  An enemy
  at distance 2500 stays Idle.  An enemy in Chase at distance 100 moves to Attack exactly
  when the variance drawn is above \<open>-20 + 2\<^sup>-\<^sup>4\<^sup>7\<close> (up to there \<^verbatim>\<open>120 + variance\<close> is
  rounded to 100 or lies below it), and an enemy in Chase at a distance below 90 always
  does.
\<close>

theorem C6_transition_table:
  assumes "0 \<le> rnd_variance env" and "rnd_variance env < 1"
  shows "- D 30 \<le> variance (rnd_variance env) \<and> variance (rnd_variance env) < D 30
    \<and> ai_currentState (fst (checkStateTransitions env distance c))
        = spec_table_nextState (variance (rnd_variance env)) distance (ai_stateTimer (fst c))
            (ai_currentState (fst c))
    \<and> (\<not> e_isDead (snd c) \<and> \<not> isDead player \<longrightarrow>
         ai_currentState (fst (stateOf (ai_update delta env player c)))
           = spec_table_nextState (variance (rnd_variance env)) \<bar>p_x player - e_x (snd c)\<bar>
               (ai_stateTimer (fst c) + delta) (ai_currentState (fst c)))
    \<and> (ai_currentState (fst c) = AI_IDLE \<longrightarrow>
         ai_currentState (fst (checkStateTransitions env (D 2500) c)) = AI_IDLE)
    \<and> (ai_currentState (fst c) = AI_CHASE \<longrightarrow>
         (ai_currentState (fst (checkStateTransitions env (D 100) c)) = AI_ATTACK)
           = (- 20 + 1 / 2 ^ 47 < val (variance (rnd_variance env))))
    \<and> (ai_currentState (fst c) = AI_CHASE \<and> distance < D 90 \<longrightarrow>
         ai_currentState (fst (checkStateTransitions env distance c)) = AI_ATTACK)"
proof -
  let ?v = "variance (rnd_variance env)"
  have vb: "- 30 \<le> val ?v \<and> val ?v \<le> 30 - 1 / 2 ^ 47"
    using assms by (rule variance_bounds)
  have v: "- D 30 \<le> ?v \<and> ?v < D 30"
    using vb by (simp add: double_le double_less val_uminus val_D fl_numeral fl_neg_numeral)
  have v30: "val ?v \<le> 30" using vb by simp
  have upd: "\<not> e_isDead (snd c) \<and> \<not> isDead player \<longrightarrow>
         ai_currentState (fst (stateOf (ai_update delta env player c)))
           = spec_table_nextState ?v \<bar>p_x player - e_x (snd c)\<bar>
               (ai_stateTimer (fst c) + delta) (ai_currentState (fst c))"
    by (simp add: ai_update_def Let_def executeStateBehavior_state checkStateTransitions_state)
  have far: "ai_currentState (fst c) = AI_IDLE \<longrightarrow>
         ai_currentState (fst (checkStateTransitions env (D 2500) c)) = AI_IDLE"
    using idle_at_2500 [OF v30]
    by (simp add: checkStateTransitions_state spec_table_nextState_def)
  have near: "ai_currentState (fst c) = AI_CHASE \<longrightarrow>
         (ai_currentState (fst (checkStateTransitions env (D 100) c)) = AI_ATTACK)
           = (- 20 + 1 / 2 ^ 47 < val ?v)"
    by (simp add: checkStateTransitions_state spec_table_nextState_def chase_at_100)
  have close: "ai_currentState (fst c) = AI_CHASE \<and> distance < D 90 \<longrightarrow>
         ai_currentState (fst (checkStateTransitions env distance c)) = AI_ATTACK"
    using attack_below_90 [of ?v distance] vb
    by (simp add: checkStateTransitions_state spec_table_nextState_def)
  from v upd far near close show ?thesis
    by (simp only: checkStateTransitions_state simp_thms)
qed

theorem C6_transition_table_witness:
  "ai_currentState (fst (checkStateTransitions
       \<lparr>rnd_variance = D 0.75, rnd_jump = D 0.5, rnd_pause = D 0.5, rnd_pauseLength = D 0.5,
        rnd_attack = D 0.5, rnd_retreat = D 0.5, env_now = 0\<rparr>
       (D 100) (newAIController\<lparr>ai_currentState := AI_CHASE\<rparr>, newEnemy (D 200) 0)))
     = AI_ATTACK \<and>
   ai_currentState (fst (checkStateTransitions
       \<lparr>rnd_variance = D 0.75, rnd_jump = D 0.5, rnd_pause = D 0.5, rnd_pauseLength = D 0.5,
        rnd_attack = D 0.5, rnd_retreat = D 0.5, env_now = 0\<rparr>
       (D 2500) (newAIController, newEnemy (D 2600) 0))) = AI_IDLE"
proof -
  let ?env = "\<lparr>rnd_variance = D 0.75, rnd_jump = D 0.5, rnd_pause = D 0.5,
      rnd_pauseLength = D 0.5, rnd_attack = D 0.5, rnd_retreat = D 0.5, env_now = 0\<rparr>"
  have r: "0 \<le> rnd_variance ?env" "rnd_variance ?env < 1"
    by (simp_all add: double_eval fl_eval)
  let ?chase = "(newAIController\<lparr>ai_currentState := AI_CHASE\<rparr>, newEnemy (D 200) 0)"
  let ?idle = "(newAIController, newEnemy (D 2600) 0)"
  have v: "- 20 + 1 / 2 ^ 47 < val (variance (rnd_variance ?env))"
    by (simp add: variance_def ai_config double_eval fl_eval)
  have s: "ai_currentState (fst ?chase) = AI_CHASE" "ai_currentState (fst ?idle) = AI_IDLE"
    by (simp_all add: newAIController_def)
  from C6_transition_table [OF r, of "D 100" ?chase "newPlayer 0 0" "D 16"]
  have "ai_currentState (fst ?chase) = AI_CHASE \<longrightarrow>
      (ai_currentState (fst (checkStateTransitions ?env (D 100) ?chase)) = AI_ATTACK)
        = (- 20 + 1 / 2 ^ 47 < val (variance (rnd_variance ?env)))"
    by blast
  with v s have a: "ai_currentState (fst (checkStateTransitions ?env (D 100) ?chase)) = AI_ATTACK"
    by blast
  from C6_transition_table [OF r, of "D 2500" ?idle "newPlayer 0 0" "D 16"]
  have "ai_currentState (fst ?idle) = AI_IDLE \<longrightarrow>
      ai_currentState (fst (checkStateTransitions ?env (D 2500) ?idle)) = AI_IDLE"
    by blast
  with s have b: "ai_currentState (fst (checkStateTransitions ?env (D 2500) ?idle)) = AI_IDLE"
    by blast
  from a b show ?thesis by simp
qed

subsection \<open>C8: guards of scheduled callbacks\<close>

text \<open>
  Claim C8 does not hold of the code: the completion callback of the player's hurt
  reaction has no guard.  A new player takes a hit of 100: it is dead, in state \<open>P_DEAD\<close>,
  with that callback registered; the callback firing changes the dead player's state to
  \<open>P_IDLE\<close>.  The enemy's hurt callback is unguarded in the same way.  In any state at all
  the player's return-to-idle callback ends in \<open>P_IDLE\<close>, either enemy callback ends in
  \<open>E_IDLE\<close>, and a due delayed dodge start ends in \<open>P_DODGING\<close>; the enemy's warning
  callback and both timeouts of the AI, by contrast, act only under their guard.
\<close>

theorem C8_unguarded_callback:
  "isDead (takeDamage (D 100) 0 (newPlayer (D 100) 0)) \<and>
   p_currentState (takeDamage (D 100) 0 (newPlayer (D 100) 0)) = P_DEAD \<and>
   p_listeners (takeDamage (D 100) 0 (newPlayer (D 100) 0)) = [ReturnToIdle] \<and>
   isDead (runCallback ReturnToIdle (takeDamage (D 100) 0 (newPlayer (D 100) 0))) \<and>
   p_currentState (runCallback ReturnToIdle (takeDamage (D 100) 0 (newPlayer (D 100) 0))) = P_IDLE \<and>
   e_isDead (stateOf (e_takeDamage (D 300) 0 (Some ''uppercut'') (newEnemy (D 100) 0))) \<and>
   e_currentState (stateOf (e_takeDamage (D 300) 0 (Some ''uppercut'') (newEnemy (D 100) 0))) = E_HURT \<and>
   e_currentState
     (e_runCallback E_ReturnToIdle
        (stateOf (e_takeDamage (D 300) 0 (Some ''uppercut'') (newEnemy (D 100) 0))))
     = E_IDLE \<and>
   p_currentState (runCallback ReturnToIdle s) = P_IDLE \<and>
   e_currentState (e_runCallback f e) = E_IDLE \<and>
   p_currentState
     (clockUpdate 0 i (s\<lparr>p_delayedCalls := [\<lparr>te_elapsed = 0, te_delay = 0\<rparr>]\<rparr>))
     = P_DODGING \<and>
   attackCallback a e
     = (if canAttack e
        then (case a of Pending_punch \<Rightarrow> Return () (e_performPunch e)
                      | Pending_sidekick \<Rightarrow> e_performSidekick e)
        else Return () e) \<and>
   runTimeout g c
     = (if ai_currentState (fst c) = AI_ATTACK
        then transitionTo (case g of RetreatAfterAttack \<Rightarrow> AI_RETREAT
                                   | ChaseAfterAttack \<Rightarrow> AI_CHASE) c
        else c)"
  by (simp add: isDead_def takeDamage_def newPlayer_def triggerHurt_def player_prims
      player_config runCallback_def e_isDead_def e_takeDamage_def newEnemy_def
      e_triggerHurt_def enemy_prims enemy_config e_runCallback_def Let_def
      clockUpdate_def performCounterDodge_def attackCallback_def runTimeout_def
      double_eval split: EnemyCallback.splits AITimeout.splits)


subsection \<open>C9: a hitbox that only touches the defender\<close>




subsection \<open>C10: health stays within bounds and never grows\<close>

text \<open>
  Claim C10.  Along every sequence of events from construction in which no damage
  amount is negative, a combatant's health stays between 0 and its maximum health, and
  the maximum stays the configured constant.  In every state, an event other than
  \<^verbatim>\<open>takeDamage\<close> leaves health as it is, and \<^verbatim>\<open>takeDamage\<close> with a non-negative amount
  never increases it: it leaves it unchanged (invincible or dead) or sets it to
  \<open>max 0 (health - amount)\<close>.  The amounts the game passes, \<^verbatim>\<open>getAttackDamage()\<close>, are never
  negative.  This holds for the Player and for the Enemy.
\<close>

theorem C10_health_invariant:
  assumes "\<forall>ev\<in>set evs. nonNegativeDamage ev"
    and "\<forall>ev\<in>set eevs. e_nonNegativeDamage ev"
  shows "0 \<le> p_currentHealth (playerRun evs (newPlayer x y))
    \<and> p_currentHealth (playerRun evs (newPlayer x y)) \<le> p_maxHealth (playerRun evs (newPlayer x y))
    \<and> p_maxHealth (playerRun evs (newPlayer x y)) = P_MAX_HEALTH
    \<and> (\<forall>ev. \<not> isTakeDamage ev \<longrightarrow> p_currentHealth (playerStep ev s) = p_currentHealth s)
    \<and> (\<forall>ev. nonNegativeDamage ev \<longrightarrow> p_currentHealth (playerStep ev s) \<le> p_currentHealth s)
    \<and> p_currentHealth (takeDamage amount attackerX s)
        = (if p_isInvincible s \<or> p_currentHealth s \<le> 0 then p_currentHealth s
           else max 0 (p_currentHealth s - amount))
    \<and> 0 \<le> e_currentHealth (enemyRun eevs (newEnemy x' y'))
    \<and> e_currentHealth (enemyRun eevs (newEnemy x' y')) \<le> e_maxHealth (enemyRun eevs (newEnemy x' y'))
    \<and> e_maxHealth (enemyRun eevs (newEnemy x' y')) = E_MAX_HEALTH
    \<and> (\<forall>ev. \<not> e_isTakeDamage ev \<longrightarrow> e_currentHealth (enemyStep ev e) = e_currentHealth e)
    \<and> (\<forall>ev. e_nonNegativeDamage ev \<longrightarrow> e_currentHealth (enemyStep ev e) \<le> e_currentHealth e)
    \<and> e_currentHealth (stateOf (e_takeDamage amount attackerX attackType e))
        = (if e_isInvincible e \<or> e_currentHealth e \<le> 0 then e_currentHealth e
           else max 0 (e_currentHealth e - amount))
    \<and> 0 \<le> getAttackDamage s \<and> 0 \<le> e_getAttackDamage e"
proof -
  have p0: "0 \<le> p_currentHealth (newPlayer x y)"
    by (simp add: newPlayer_def player_config double_eval)
  have pb: "0 \<le> p_currentHealth (playerRun evs (newPlayer x y))
      \<and> p_currentHealth (playerRun evs (newPlayer x y)) \<le> p_currentHealth (newPlayer x y)"
    using assms(1) p0 by (rule playerRun_health_bounds)
  have pm: "p_maxHealth (newPlayer x y) = P_MAX_HEALTH"
      "p_currentHealth (newPlayer x y) = P_MAX_HEALTH"
    by (simp_all add: newPlayer_def)
  have e0: "0 \<le> e_currentHealth (newEnemy x' y')"
    by (simp add: newEnemy_def enemy_config double_eval)
  have eb: "0 \<le> e_currentHealth (enemyRun eevs (newEnemy x' y'))
      \<and> e_currentHealth (enemyRun eevs (newEnemy x' y')) \<le> e_currentHealth (newEnemy x' y')"
    using assms(2) e0 by (rule enemyRun_health_bounds)
  have em: "e_maxHealth (newEnemy x' y') = E_MAX_HEALTH"
      "e_currentHealth (newEnemy x' y') = E_MAX_HEALTH"
    by (simp_all add: newEnemy_def)
  have dmg: "0 \<le> getAttackDamage s \<and> 0 \<le> e_getAttackDamage e"
    by (simp add: getAttackDamage_def e_getAttackDamage_def player_config double_eval
        split: option.splits PlayerAttack.splits)
  show ?thesis
    using pb pm eb em dmg
    by (simp add: playerStep_health_other playerStep_health_le health_takeDamage
        enemyStep_health_other enemyStep_health_le e_health_takeDamage)
qed

theorem C10_health_invariant_witness:
  "0 \<le> p_currentHealth
          (playerRun [TakeDamage (D 30) 0, AnimationComplete, TakeDamage (D 200) 0]
             (newPlayer (D 100) 0))
   \<and> p_currentHealth
          (playerRun [TakeDamage (D 30) 0, AnimationComplete, TakeDamage (D 200) 0]
             (newPlayer (D 100) 0)) \<le> D 100
   \<and> 0 \<le> e_currentHealth
            (enemyRun [E_TakeDamage (D 20) 0 (Some ''uppercut''), E_Punch 0]
               (newEnemy (D 900) 0))
   \<and> e_currentHealth
            (enemyRun [E_TakeDamage (D 20) 0 (Some ''uppercut''), E_Punch 0]
               (newEnemy (D 900) 0)) \<le> D 300"
proof -
  let ?evs = "[TakeDamage (D 30) 0, AnimationComplete, TakeDamage (D 200) 0]"
  let ?eevs = "[E_TakeDamage (D 20) 0 (Some ''uppercut''), E_Punch 0]"
  have nn: "\<forall>ev\<in>set ?evs. nonNegativeDamage ev" "\<forall>ev\<in>set ?eevs. e_nonNegativeDamage ev"
    by (simp_all add: double_eval)
  from C10_health_invariant [OF nn, of "D 100" 0 "newPlayer 0 0" 0 0 "D 900" 0 "newEnemy 0 0" None]
  have "0 \<le> p_currentHealth (playerRun ?evs (newPlayer (D 100) 0))
      \<and> p_currentHealth (playerRun ?evs (newPlayer (D 100) 0))
          \<le> p_maxHealth (playerRun ?evs (newPlayer (D 100) 0))
      \<and> 0 \<le> e_currentHealth (enemyRun ?eevs (newEnemy (D 900) 0))
      \<and> e_currentHealth (enemyRun ?eevs (newEnemy (D 900) 0))
          \<le> e_maxHealth (enemyRun ?eevs (newEnemy (D 900) 0))"
    by blast
  then show ?thesis
    by (simp add: player_config enemy_config newPlayer_def newEnemy_def)
qed

end
